theory Spec2Isabelle
  imports Main "HOL-Library.Word" "HOL-Library.Multiset" "HOL-Library.Log_Nat"
    "HOL-Library.Sublist"
begin

unbundle bit_operations_syntax

section \<open>Bet encoder: the squares bitmask\<close>

text \<open>
  A target object \<open>{ id: number, ... }\<close>. The identifier is a 1-based square number; it is
  modelled as an unbounded integer, so that identifiers below 1 and above 25 are inputs too.
\<close>

record target =
  target_id :: int

text \<open>
  \<open>createSquaresMask\<close>: the body of the \<open>for ... of\<close> loop, then the loop over the
  selection with the running mask (\<open>msk\<close> here), started at 0. The bitwise operators of
  the source work on 32-bit integers; the number that the function returns is the signed
  reading of the word.
\<close>

definition mask_step :: "32 word \<Rightarrow> target \<Rightarrow> 32 word" where
  "mask_step msk t =
     (let squareIndex = target_id t - 1
      in if 0 \<le> squareIndex \<and> squareIndex < 25
         then msk OR push_bit (nat squareIndex) 1
         else msk)"

fun mask_loop :: "target list \<Rightarrow> 32 word \<Rightarrow> 32 word" where
  "mask_loop [] msk = msk"
| "mask_loop (t # ts) msk = mask_loop ts (mask_step msk t)"

definition createSquaresMask :: "target list \<Rightarrow> 32 word" where
  "createSquaresMask targets = mask_loop targets 0"

section \<open>Numbers of the source language\<close>

text \<open>
  The stake is a JavaScript number: an IEEE 754 binary64 value. A finite value is the rational
  it denotes; the two zeros are one value, \<open>Fin 0\<close>. The only consumer of these numbers in
  the transaction code is \<open>BigInt(Math.floor(x))\<close>, which maps both zeros to \<open>0n\<close> and rejects
  both infinities and NaN alike, so the sign of a zero never shows in a result.
\<close>

datatype jsnum = Fin rat | PosInf | NegInf | NaN

definition pow2 :: "int \<Rightarrow> rat" where
  "pow2 e = (if 0 \<le> e then 2 ^ nat e else 1 / 2 ^ nat (- e))"

text \<open>The binary exponent of a positive rational: the \<open>e\<close> with \<open>2^e \<le> q < 2^(e+1)\<close>.\<close>

definition ilog2 :: "rat \<Rightarrow> int" where
  "ilog2 q = (let (a, b) = quotient_of q; e = bitlen a - bitlen b
              in if pow2 e \<le> q then e else e - 1)"

text \<open>Rounding to the nearest integer, ties to the even one.\<close>

definition rne :: "rat \<Rightarrow> int" where
  "rne x = (let f = \<lfloor>x\<rfloor>; d = x - of_int f
            in if d < 1 / 2 then f else if 1 / 2 < d then f + 1
               else if even f then f else f + 1)"

text \<open>
  Rounding an exact result to binary64: 53 significant bits, exponents from -1022 (below
  that the spacing stays \<open>2^-1074\<close>, the subnormal numbers), overflow to an infinity.
\<close>

definition round64 :: "rat \<Rightarrow> jsnum" where
  "round64 q =
     (if q = 0 then Fin 0
      else let a = \<bar>q\<bar>;
               e = max (ilog2 a) (- 1022);
               ulp = pow2 (e - 52);
               r = of_int (rne (a / ulp)) * ulp
           in if pow2 1024 \<le> r then (if 0 < q then PosInf else NegInf)
              else Fin (sgn q * r))"

text \<open>The operators \<open>*\<close> and \<open>/\<close> on numbers.\<close>

fun js_mul :: "jsnum \<Rightarrow> jsnum \<Rightarrow> jsnum" where
  "js_mul (Fin a) (Fin b) = round64 (a * b)"
| "js_mul NaN _ = NaN"
| "js_mul _ NaN = NaN"
| "js_mul (Fin a) PosInf = (if a = 0 then NaN else if 0 < a then PosInf else NegInf)"
| "js_mul (Fin a) NegInf = (if a = 0 then NaN else if 0 < a then NegInf else PosInf)"
| "js_mul PosInf (Fin b) = (if b = 0 then NaN else if 0 < b then PosInf else NegInf)"
| "js_mul NegInf (Fin b) = (if b = 0 then NaN else if 0 < b then NegInf else PosInf)"
| "js_mul PosInf PosInf = PosInf"
| "js_mul PosInf NegInf = NegInf"
| "js_mul NegInf PosInf = NegInf"
| "js_mul NegInf NegInf = PosInf"

fun js_div :: "jsnum \<Rightarrow> jsnum \<Rightarrow> jsnum" where
  "js_div (Fin a) (Fin b) =
     (if b = 0 then (if a = 0 then NaN else if 0 < a then PosInf else NegInf)
      else round64 (a / b))"
| "js_div NaN _ = NaN"
| "js_div _ NaN = NaN"
| "js_div (Fin a) PosInf = Fin 0"
| "js_div (Fin a) NegInf = Fin 0"
| "js_div PosInf (Fin b) = (if 0 \<le> b then PosInf else NegInf)"
| "js_div NegInf (Fin b) = (if 0 \<le> b then NegInf else PosInf)"
| "js_div PosInf PosInf = NaN"
| "js_div PosInf NegInf = NaN"
| "js_div NegInf PosInf = NaN"
| "js_div NegInf NegInf = NaN"

fun Math_floor :: "jsnum \<Rightarrow> jsnum" where
  "Math_floor (Fin q) = Fin (of_int \<lfloor>q\<rfloor>)"
| "Math_floor x = x"

text \<open>The literal \<open>0.01\<close> and the number of an array length.\<close>

definition one_percent :: jsnum where
  "one_percent = round64 (1 / 100)"

definition Number_of_nat :: "nat \<Rightarrow> jsnum" where
  "Number_of_nat n = Fin (of_nat n)"

section \<open>Failures, buffers and strings\<close>

text \<open>
  A thrown value is an \<open>Error\<close> object: it has a message, and a failed submission may carry
  the program's log lines as well (\<open>e.logs\<close>, absent on other errors).
\<close>

record failure =
  message :: string
  logs :: "string list option"

definition RangeError :: "string \<Rightarrow> failure" where
  "RangeError msg = \<lparr>message = msg, logs = None\<rparr>"

text \<open>\<open>BigInt(x)\<close> of a number: the integer itself, a RangeError for anything else.\<close>

fun BigInt :: "jsnum \<Rightarrow> failure + int" where
  "BigInt (Fin q) =
     (if q = of_int \<lfloor>q\<rfloor> then Inr \<lfloor>q\<rfloor>
      else Inl (RangeError ''The number cannot be converted to a BigInt because it is not an integer''))"
| "BigInt x =
     Inl (RangeError ''The number cannot be converted to a BigInt because it is not an integer'')"

type_synonym buffer = "8 word list"

definition Buffer_alloc :: "nat \<Rightarrow> buffer" where
  "Buffer_alloc n = replicate n 0"

text \<open>
  The write methods of a buffer store the value at the offset and throw a RangeError when
  the value does not fit the width or the bytes do not fit the buffer. The buffer is
  mutated in place in the source; here the written buffer is returned.
\<close>

definition write_le :: "buffer \<Rightarrow> int \<Rightarrow> nat \<Rightarrow> nat \<Rightarrow> buffer" where
  "write_le buf v off n = fold (\<lambda>i b. b[off + i := of_int (v div 256 ^ i)]) [0..<n] buf"

definition writeUInt8 :: "buffer \<Rightarrow> int \<Rightarrow> nat \<Rightarrow> failure + buffer" where
  "writeUInt8 buf v off =
     (if 0 \<le> v \<and> v < 2 ^ 8 \<and> off + 1 \<le> length buf then Inr (write_le buf v off 1)
      else Inl (RangeError ''The value is out of range''))"

definition writeBigUInt64LE :: "buffer \<Rightarrow> int \<Rightarrow> nat \<Rightarrow> failure + buffer" where
  "writeBigUInt64LE buf v off =
     (if 0 \<le> v \<and> v < 2 ^ 64 \<and> off + 8 \<le> length buf then Inr (write_le buf v off 8)
      else Inl (RangeError ''The value is out of range''))"

definition writeUInt32LE :: "buffer \<Rightarrow> int \<Rightarrow> nat \<Rightarrow> failure + buffer" where
  "writeUInt32LE buf v off =
     (if 0 \<le> v \<and> v < 2 ^ 32 \<and> off + 4 \<le> length buf then Inr (write_le buf v off 4)
      else Inl (RangeError ''The value is out of range''))"

text \<open>\<open>toString\<close> of a non-negative integer: its decimal digits.\<close>

definition digit :: "nat \<Rightarrow> char" where
  "digit d = ''0123456789'' ! d"

function toString :: "nat \<Rightarrow> string" where
  "toString n = (if n < 10 then [digit n] else toString (n div 10) @ [digit (n mod 10)])"
  by pat_completeness auto

termination
  by (relation "measure id") auto

declare toString.simps [simp del]

text \<open>\<open>lines.join('\n')\<close> and \<open>s.includes(m)\<close>.\<close>

fun join_lines :: "string list \<Rightarrow> string" where
  "join_lines [] = []"
| "join_lines [l] = l"
| "join_lines (l # ls) = l @ [CHR 0x0A] @ join_lines ls"

fun includes_str :: "string \<Rightarrow> string \<Rightarrow> bool" where
  "includes_str [] m = (m = [])"
| "includes_str (c # cs) m = (prefix m (c # cs) \<or> includes_str cs m)"

text \<open>
  \<open>e.message.match(/Transaction ([a-zA-Z0-9]{87,88})/)\<close>, reduced to its first capture group:
  the leftmost place where the word is followed by at least 87 letters and digits, and the
  first 88 of them when there are that many.
\<close>

definition alnum :: "char \<Rightarrow> bool" where
  "alnum c \<longleftrightarrow>
     (let k = (of_char c :: nat)
      in (97 \<le> k \<and> k \<le> 122) \<or> (65 \<le> k \<and> k \<le> 90) \<or> (48 \<le> k \<and> k \<le> 57))"

fun sigMatch :: "string \<Rightarrow> string option" where
  "sigMatch [] = None"
| "sigMatch (c # cs) =
     (let run = takeWhile alnum (drop 12 (c # cs))
      in if prefix ''Transaction '' (c # cs) \<and> 87 \<le> length run then Some (take 88 run)
         else sigMatch cs)"

section \<open>Accounts, instructions and the transport\<close>

type_synonym pubkey = string

record keypair =
  publicKey :: pubkey

record account_meta =
  pubkey :: pubkey
  isSigner :: bool
  isWritable :: bool

text \<open>
  An instruction of the program is its account list, the program id and the data buffer.
  The instructions that the client library builds (the two compute-budget hints and the
  system transfer) are kept as what they were built from.
\<close>

datatype instruction =
    SetComputeUnitLimit int
  | SetComputeUnitPrice int
  | SystemTransfer pubkey pubkey int
  | TransactionInstruction "account_meta list" pubkey buffer

type_synonym transaction = "instruction list"

text \<open>The decoded accounts: a field that the decoder left out is \<open>None\<close>.\<close>

record round =
  total_deployed :: "nat option"

record miner =
  round_id :: nat
  checkpoint_id :: nat

text \<open>
  What the transaction code imports from the modules of constants and of address derivation
  and decoding: the program ids, the conversion constant, the five derived addresses and
  the two decoders, which throw on a buffer they cannot decode.
\<close>

record env =
  ORE_PROGRAM_ID :: pubkey
  SYSTEM_PROGRAM_ID :: pubkey
  SOL_PER_LAMPORT :: jsnum
  getBoardPda :: pubkey
  getRoundPda :: "nat \<Rightarrow> pubkey"
  getMinerPda :: "pubkey \<Rightarrow> pubkey"
  getAutomationPda :: "pubkey \<Rightarrow> pubkey"
  getTreasuryPda :: pubkey
  parseMiner :: "buffer \<Rightarrow> failure + miner"
  parseRound :: "buffer \<Rightarrow> failure + round"

text \<open>The shared process state read by \<open>getState()\<close>.\<close>

record state =
  currentRoundId :: nat
  customDeployAmount :: jsnum

text \<open>
  The transport: fetching an account (\<open>None\<close> when it does not exist), submitting a
  transaction with its signers (the signature, or a failure), fetching the logs of a
  signature.
\<close>

record connection =
  getAccountInfo :: "pubkey \<Rightarrow> failure + buffer option"
  sendAndConfirmTransaction :: "transaction \<Rightarrow> keypair list \<Rightarrow> failure + string"
  getLogs :: "string \<Rightarrow> failure + string list"

text \<open>
  What a call does besides returning: the lines it passes to \<open>log\<close>, the transaction it
  hands to the transport, and the arguments of \<open>handleFatalError\<close> when it calls it.
\<close>

record effects =
  logged :: "string list"
  submitted :: "transaction option"
  fatal :: "(failure \<times> string list option) option"

definition say :: "string list \<Rightarrow> effects" where
  "say ls = \<lparr>logged = ls, submitted = None, fatal = None\<rparr>"

section \<open>The checkpoint transaction\<close>

definition benign_marker :: string where
  "benign_marker = ''custom program error: 0x1''"

definition sendCheckpointTx :: "env \<Rightarrow> nat \<Rightarrow> connection \<Rightarrow> keypair option \<Rightarrow> bool \<times> effects" where
  "sendCheckpointTx env roundToCheckpoint conn signer_opt =
     (case signer_opt of
        None \<Rightarrow> (False, say [''checkpoint FAILED: signer keypair not loaded''])
      | Some signer \<Rightarrow>
          (let authority = publicKey signer;
               accounts =
                 [\<lparr>pubkey = publicKey signer, isSigner = True, isWritable = True\<rparr>,
                  \<lparr>pubkey = getBoardPda env, isSigner = False, isWritable = True\<rparr>,
                  \<lparr>pubkey = getMinerPda env authority, isSigner = False, isWritable = True\<rparr>,
                  \<lparr>pubkey = getRoundPda env roundToCheckpoint, isSigner = False, isWritable = True\<rparr>,
                  \<lparr>pubkey = getTreasuryPda env, isSigner = False, isWritable = True\<rparr>,
                  \<lparr>pubkey = SYSTEM_PROGRAM_ID env, isSigner = False, isWritable = False\<rparr>]
           in case (case writeUInt8 (Buffer_alloc 1) 2 0 of
                      Inl e \<Rightarrow> (None, Inl e)
                    | Inr dataBuffer \<Rightarrow>
                        (let transaction = [TransactionInstruction accounts (ORE_PROGRAM_ID env) dataBuffer]
                         in (Some transaction, sendAndConfirmTransaction conn transaction [signer])))
              of
                (tx, Inr signature) \<Rightarrow>
                  (True, \<lparr>logged = [''checkpoint successful: '' @ take 16 signature @ ''...''],
                          submitted = tx, fatal = None\<rparr>)
              | (tx, Inl e) \<Rightarrow>
                  (let errorLogs = (case logs e of Some ls \<Rightarrow> join_lines ls | None \<Rightarrow> message e)
                   in if includes_str errorLogs benign_marker
                      then (True, \<lparr>logged = [''checkpoint for round '' @ toString roundToCheckpoint
                                               @ '' already done or not needed''],
                                    submitted = tx, fatal = None\<rparr>)
                      else (False, \<lparr>logged = [], submitted = tx, fatal = Some (e, None)\<rparr>))))"

section \<open>The deploy transaction\<close>

definition feeRecipient :: pubkey where
  "feeRecipient = ''oREVE663st4oVqRp31TdEKdjqUYmZkJ3Vofi1zEAPro''"

text \<open>Step 3: the miner's two round identifiers, both 0 when the account does not exist.\<close>

definition fetchMinerState :: "env \<Rightarrow> connection \<Rightarrow> pubkey \<Rightarrow> failure + nat \<times> nat" where
  "fetchMinerState env conn authority =
     (case getAccountInfo conn (getMinerPda env authority) of
        Inl e \<Rightarrow> Inl e
      | Inr None \<Rightarrow> Inr (0, 0)
      | Inr (Some data) \<Rightarrow>
          (case parseMiner env data of
             Inl e \<Rightarrow> Inl e
           | Inr minerData \<Rightarrow> Inr (round_id minerData, checkpoint_id minerData)))"

text \<open>Step 4a: the two compute-budget hints.\<close>

definition computeBudget :: transaction where
  "computeBudget = [SetComputeUnitLimit 750000, SetComputeUnitPrice 100000]"

text \<open>
  Step 5: the checkpoint logic. It yields the instructions it adds to the transaction and
  the lines it logs.
\<close>

definition checkpointLogic ::
  "env \<Rightarrow> keypair \<Rightarrow> nat \<Rightarrow> nat \<Rightarrow> nat \<Rightarrow> failure + transaction \<times> string list" where
  "checkpointLogic env signer currentRound minerRoundId minerCheckpointId =
     (let authority = publicKey signer;
          isStateDirty = (minerRoundId \<noteq> minerCheckpointId);
          canCheckpoint = (minerRoundId < currentRound)
      in if isStateDirty \<and> canCheckpoint then
           (let checkpointAccounts =
                  [\<lparr>pubkey = publicKey signer, isSigner = True, isWritable = True\<rparr>,
                   \<lparr>pubkey = getBoardPda env, isSigner = False, isWritable = False\<rparr>,
                   \<lparr>pubkey = getMinerPda env authority, isSigner = False, isWritable = True\<rparr>,
                   \<lparr>pubkey = getRoundPda env minerRoundId, isSigner = False, isWritable = True\<rparr>,
                   \<lparr>pubkey = getTreasuryPda env, isSigner = False, isWritable = True\<rparr>,
                   \<lparr>pubkey = SYSTEM_PROGRAM_ID env, isSigner = False, isWritable = False\<rparr>]
            in case writeUInt8 (Buffer_alloc 1) 2 0 of
                 Inl e \<Rightarrow> Inl e
               | Inr checkpointData \<Rightarrow>
                   Inr ([TransactionInstruction checkpointAccounts (ORE_PROGRAM_ID env) checkpointData],
                        []))
         else if isStateDirty \<and> \<not> canCheckpoint then
           Inr ([], [''warning: state dirty but round '' @ toString minerRoundId
                     @ '' is current. skipping checkpoint.''])
         else Inr ([], []))"

text \<open>The stake and the fee in lamports, and the 13 bytes of the deploy instruction.\<close>

definition amountLamports :: "env \<Rightarrow> state \<Rightarrow> failure + int" where
  "amountLamports env st =
     BigInt (Math_floor (js_div (customDeployAmount st) (SOL_PER_LAMPORT env)))"

definition feeAmountLamports :: "env \<Rightarrow> state \<Rightarrow> target list \<Rightarrow> failure + int" where
  "feeAmountLamports env st targets =
     (let totalSolDeployed = js_mul (customDeployAmount st) (Number_of_nat (length targets))
      in BigInt (Math_floor (js_div (js_mul totalSolDeployed one_percent) (SOL_PER_LAMPORT env))))"

definition deployData :: "int \<Rightarrow> 32 word \<Rightarrow> failure + buffer" where
  "deployData amount squaresMask =
     (case writeUInt8 (Buffer_alloc (1 + 8 + 4)) 6 0 of
        Inl e \<Rightarrow> Inl e
      | Inr b1 \<Rightarrow>
          (case writeBigUInt64LE b1 amount 1 of
             Inl e \<Rightarrow> Inl e
           | Inr b2 \<Rightarrow> writeUInt32LE b2 (sint squaresMask) 9))"

definition deployAccounts :: "env \<Rightarrow> state \<Rightarrow> keypair \<Rightarrow> account_meta list" where
  "deployAccounts env st signer =
     (let authority = publicKey signer
      in [\<lparr>pubkey = publicKey signer, isSigner = True, isWritable = True\<rparr>,
          \<lparr>pubkey = authority, isSigner = False, isWritable = True\<rparr>,
          \<lparr>pubkey = getAutomationPda env authority, isSigner = False, isWritable = True\<rparr>,
          \<lparr>pubkey = getBoardPda env, isSigner = False, isWritable = True\<rparr>,
          \<lparr>pubkey = getMinerPda env authority, isSigner = False, isWritable = True\<rparr>,
          \<lparr>pubkey = getRoundPda env (currentRoundId st), isSigner = False, isWritable = True\<rparr>,
          \<lparr>pubkey = SYSTEM_PROGRAM_ID env, isSigner = False, isWritable = False\<rparr>])"

text \<open>
  From the deploy accounts to the last \<open>transaction.add\<close>: the instructions added after the
  checkpoint logic, or the first failure thrown on the way.
\<close>

definition feeAndDeploy :: "env \<Rightarrow> state \<Rightarrow> target list \<Rightarrow> keypair \<Rightarrow> failure + transaction" where
  "feeAndDeploy env st targets signer =
     (case amountLamports env st of
        Inl e \<Rightarrow> Inl e
      | Inr amount \<Rightarrow>
          (let squaresMask = createSquaresMask targets
           in case feeAmountLamports env st targets of
                Inl e \<Rightarrow> Inl e
              | Inr fee \<Rightarrow>
                  (case deployData amount squaresMask of
                     Inl e \<Rightarrow> Inl e
                   | Inr data \<Rightarrow>
                       (let deployInstruction =
                              TransactionInstruction (deployAccounts env st signer) (ORE_PROGRAM_ID env) data
                        in Inr ((if 0 < fee then [SystemTransfer (publicKey signer) feeRecipient fee]
                                 else [])
                                @ [deployInstruction])))))"

text \<open>
  The body of the \<open>try\<close> block: what it did, and the failure it threw, if any.
\<close>

definition tryDeploy ::
  "env \<Rightarrow> state \<Rightarrow> connection \<Rightarrow> target list \<Rightarrow> keypair \<Rightarrow> effects \<times> failure option" where
  "tryDeploy env st conn targets signer =
     (let authority = publicKey signer;
          newRoundPda = getRoundPda env (currentRoundId st)
      in case getAccountInfo conn newRoundPda of
           Inl e \<Rightarrow> (say [], Some e)
         | Inr None \<Rightarrow>
             (say [''deploy skipped: round '' @ toString (currentRoundId st)
                   @ '' account not found. Waiting for next tick.''], None)
         | Inr (Some data) \<Rightarrow>
             (if (case parseRound env data of
                    Inl parseErr \<Rightarrow> True
                  | Inr roundData \<Rightarrow> total_deployed roundData = None)
              then (say [''deploy skipped: round '' @ toString (currentRoundId st)
                         @ '' account found but not initialized. Waiting for next tick.''], None)
              else
                (case fetchMinerState env conn authority of
                   Inl e \<Rightarrow> (say [], Some e)
                 | Inr (minerRoundId, minerCheckpointId) \<Rightarrow>
                     (case checkpointLogic env signer (currentRoundId st) minerRoundId minerCheckpointId of
                        Inl e \<Rightarrow> (say [], Some e)
                      | Inr (checkpoint, warnings) \<Rightarrow>
                          (case feeAndDeploy env st targets signer of
                             Inl e \<Rightarrow> (say warnings, Some e)
                           | Inr rest \<Rightarrow>
                               (let transaction = computeBudget @ checkpoint @ rest;
                                    sending = warnings @ [''sending deploy tx for ''
                                                @ toString (length targets) @ '' target(s)...'']
                                in case sendAndConfirmTransaction conn transaction [signer] of
                                     Inl e \<Rightarrow>
                                       (\<lparr>logged = sending, submitted = Some transaction, fatal = None\<rparr>,
                                        Some e)
                                   | Inr signature \<Rightarrow>
                                       (\<lparr>logged = sending @ [''deploy successful! signature: ''
                                                    @ take 16 signature @ ''...''],
                                         submitted = Some transaction, fatal = None\<rparr>,
                                        None)))))))"

text \<open>
  The \<open>catch\<close> block: the best-effort recovery of the logs, then the fatal-error handler,
  whatever the failure was.
\<close>

definition recoverLogs :: "connection \<Rightarrow> failure \<Rightarrow> string list option \<times> string list" where
  "recoverLogs conn e =
     (case sigMatch (message e) of
        None \<Rightarrow> (None, [])
      | Some signature \<Rightarrow>
          (case getLogs conn signature of
             Inl logError \<Rightarrow> (None, [''error fetching logs: '' @ message logError])
           | Inr ls \<Rightarrow> (Some ls, [])))"

definition catchDeploy :: "connection \<Rightarrow> effects \<Rightarrow> failure \<Rightarrow> effects" where
  "catchDeploy conn eff e =
     (let (ls, lines) = recoverLogs conn e
      in eff\<lparr>logged := logged eff @ lines, fatal := Some (e, ls)\<rparr>)"

definition sendDeployTx :: "env \<Rightarrow> state \<Rightarrow> target list \<Rightarrow> connection \<Rightarrow> keypair option \<Rightarrow> effects" where
  "sendDeployTx env st targets conn signer_opt =
     (case signer_opt of
        None \<Rightarrow> say [''deploy failed: signer keypair not loaded'']
      | Some signer \<Rightarrow>
          if length targets = 0 then say [''deploy skipped: no targets provided'']
          else (case tryDeploy env st conn targets signer of
                  (eff, None) \<Rightarrow> eff
                | (eff, Some e) \<Rightarrow> catchDeploy conn eff e))"

section \<open>Vocabulary of the properties\<close>

text \<open>Kinds of instruction, told apart by what the program reads: the data.\<close>

definition is_checkpoint :: "instruction \<Rightarrow> bool" where
  "is_checkpoint i = (case i of TransactionInstruction ks p d \<Rightarrow> d = [2] | _ \<Rightarrow> False)"

definition is_deploy :: "instruction \<Rightarrow> bool" where
  "is_deploy i =
     (case i of TransactionInstruction ks p d \<Rightarrow> length d = 13 \<and> d ! 0 = 6 | _ \<Rightarrow> False)"

definition is_fee_transfer :: "instruction \<Rightarrow> bool" where
  "is_fee_transfer i = (case i of SystemTransfer a b c \<Rightarrow> True | _ \<Rightarrow> False)"

text \<open>
  Little-endian byte strings, as the specification words them: the unsigned value that a
  byte string denotes, and the \<open>n\<close> bytes of a value, least significant first.
\<close>

fun le_value :: "buffer \<Rightarrow> int" where
  "le_value [] = 0"
| "le_value (b # bs) = uint b + 256 * le_value bs"

definition le_bytes :: "nat \<Rightarrow> int \<Rightarrow> buffer" where
  "le_bytes n v = map (\<lambda>i. of_int (v div 256 ^ i)) [0..<n]"

text \<open>The round account is there and decodes as an initialized round.\<close>

definition roundReady :: "env \<Rightarrow> state \<Rightarrow> connection \<Rightarrow> bool" where
  "roundReady env st conn =
     (case getAccountInfo conn (getRoundPda env (currentRoundId st)) of
        Inr (Some data) \<Rightarrow>
          (case parseRound env data of Inr roundData \<Rightarrow> total_deployed roundData \<noteq> None
           | Inl e \<Rightarrow> False)
      | _ \<Rightarrow> False)"

definition in_range :: "target \<Rightarrow> bool" where
  "in_range t \<longleftrightarrow> 1 \<le> target_id t \<and> target_id t \<le> 25"

text \<open>Truncation toward zero.\<close>

definition truncate :: "rat \<Rightarrow> int" where
  "truncate q = (if 0 \<le> q then \<lfloor>q\<rfloor> else \<lceil>q\<rceil>)"

section \<open>A concrete run\<close>

text \<open>
  One authority, round 10, a stake of half a SOL on the squares 1 and 25. The conversion
  constant is the binary64 number nearest to \<open>10^-9\<close>. The stand-in decoders read a miner
  account of two bytes (round id, checkpoint id) and a round account whose first byte is
  the total deployed, 0 standing for a field that is not there yet.
\<close>

definition demo_env :: env where
  "demo_env =
     \<lparr>ORE_PROGRAM_ID = ''ore-program'', SYSTEM_PROGRAM_ID = ''system-program'',
      SOL_PER_LAMPORT = Fin (4835703278458517 / 2 ^ 82),
      getBoardPda = ''board'', getRoundPda = (\<lambda>n. ''round-'' @ toString n),
      getMinerPda = (\<lambda>a. ''miner-'' @ a), getAutomationPda = (\<lambda>a. ''automation-'' @ a),
      getTreasuryPda = ''treasury'',
      parseMiner = (\<lambda>b. case b of
                           [r, c] \<Rightarrow> Inr \<lparr>round_id = unat r, checkpoint_id = unat c\<rparr>
                         | _ \<Rightarrow> Inl \<lparr>message = ''miner account: bad length'', logs = None\<rparr>),
      parseRound = (\<lambda>b. case b of
                           [] \<Rightarrow> Inl \<lparr>message = ''round account: bad length'', logs = None\<rparr>
                         | x # _ \<Rightarrow> Inr \<lparr>total_deployed = (if x = 0 then None else Some (unat x))\<rparr>)\<rparr>"

definition demo_conn :: "buffer option \<Rightarrow> buffer option \<Rightarrow> failure + string \<Rightarrow> connection" where
  "demo_conn round_account miner_account reply =
     \<lparr>getAccountInfo = (\<lambda>a. if a = ''round-10'' then Inr round_account
                             else if a = ''miner-alice'' then Inr miner_account
                             else Inr None),
      sendAndConfirmTransaction = (\<lambda>tx signers. reply),
      getLogs = (\<lambda>signature. Inr [])\<rparr>"

definition demo_state :: state where
  "demo_state = \<lparr>currentRoundId = 10, customDeployAmount = Fin (1 / 2)\<rparr>"

definition alice :: keypair where
  "alice = \<lparr>publicKey = ''alice''\<rparr>"

definition demo_targets :: "target list" where
  "demo_targets = [\<lparr>target_id = 1\<rparr>, \<lparr>target_id = 25\<rparr>]"

definition demo_deploy :: instruction where
  "demo_deploy =
     TransactionInstruction
       [\<lparr>pubkey = ''alice'', isSigner = True, isWritable = True\<rparr>,
        \<lparr>pubkey = ''alice'', isSigner = False, isWritable = True\<rparr>,
        \<lparr>pubkey = ''automation-alice'', isSigner = False, isWritable = True\<rparr>,
        \<lparr>pubkey = ''board'', isSigner = False, isWritable = True\<rparr>,
        \<lparr>pubkey = ''miner-alice'', isSigner = False, isWritable = True\<rparr>,
        \<lparr>pubkey = ''round-10'', isSigner = False, isWritable = True\<rparr>,
        \<lparr>pubkey = ''system-program'', isSigner = False, isWritable = False\<rparr>]
       ''ore-program'' [6, 255, 100, 205, 29, 0, 0, 0, 0, 1, 0, 0, 1]"

definition demo_fee :: instruction where
  "demo_fee = SystemTransfer ''alice'' ''oREVE663st4oVqRp31TdEKdjqUYmZkJ3Vofi1zEAPro'' 10000000"

definition demo_checkpoint :: instruction where
  "demo_checkpoint =
     TransactionInstruction
       [\<lparr>pubkey = ''alice'', isSigner = True, isWritable = True\<rparr>,
        \<lparr>pubkey = ''board'', isSigner = False, isWritable = False\<rparr>,
        \<lparr>pubkey = ''miner-alice'', isSigner = False, isWritable = True\<rparr>,
        \<lparr>pubkey = ''round-8'', isSigner = False, isWritable = True\<rparr>,
        \<lparr>pubkey = ''treasury'', isSigner = False, isWritable = True\<rparr>,
        \<lparr>pubkey = ''system-program'', isSigner = False, isWritable = False\<rparr>]
       ''ore-program'' [2]"

text \<open>A failed submission whose logs carry the marker of the benign duplicate.\<close>

definition duplicate_failure :: failure where
  "duplicate_failure =
     \<lparr>message = ''failed to send transaction'',
      logs = Some [''Program log: Instruction: Checkpoint'',
                   ''Program failed: custom program error: 0x1'']\<rparr>"

text \<open>A failed submission of another kind: the transaction expired.\<close>

definition expired_failure :: failure where
  "expired_failure = \<lparr>message = ''block height exceeded'', logs = None\<rparr>"

section \<open>Properties of the squares bitmask\<close>

lemma bit_push_bit_one_word32:
  "k < 32 \<Longrightarrow> bit (push_bit k (1 :: 32 word)) n \<longleftrightarrow> n = k"
  by (auto simp: bit_exp_iff)

lemma bit_mask_step:
  "bit (mask_step m t) n \<longleftrightarrow> bit m n \<or> (in_range t \<and> target_id t = int n + 1)"
proof (cases "in_range t")
  case True
  then have "nat (target_id t - 1) < 32"
    unfolding in_range_def by arith
  then have "bit (push_bit (nat (target_id t - 1)) (1 :: 32 word)) n \<longleftrightarrow>
             n = nat (target_id t - 1)"
    by (rule bit_push_bit_one_word32)
  moreover have "n = nat (target_id t - 1) \<longleftrightarrow> target_id t = int n + 1"
    using True unfolding in_range_def by arith
  moreover have "mask_step m t = m OR push_bit (nat (target_id t - 1)) 1"
    using True by (simp add: mask_step_def in_range_def)
  ultimately show ?thesis
    using True by (simp only: bit_or_iff) simp
next
  case False
  then show ?thesis
    by (auto simp: mask_step_def Let_def in_range_def)
qed

lemma bit_mask_loop:
  "bit (mask_loop ts m) n \<longleftrightarrow>
     bit m n \<or> (\<exists>t\<in>set ts. in_range t \<and> target_id t = int n + 1)"
  by (induction ts arbitrary: m) (auto simp: bit_mask_step)

lemma bit_createSquaresMask:
  "bit (createSquaresMask ts) n \<longleftrightarrow> (\<exists>t\<in>set ts. in_range t \<and> target_id t = int n + 1)"
  by (simp add: createSquaresMask_def bit_mask_loop)

lemma createSquaresMask_cong_set:
  assumes "set ts' = set ts"
  shows "createSquaresMask ts' = createSquaresMask ts"
  by (rule bit_eqI) (simp add: bit_createSquaresMask assms)

lemma set_bits_createSquaresMask:
  "{n. bit (createSquaresMask ts) n} =
     (\<lambda>t. nat (target_id t - 1)) ` {t \<in> set ts. in_range t}"
proof (rule set_eqI)
  fix n
  show "n \<in> {n. bit (createSquaresMask ts) n} \<longleftrightarrow>
        n \<in> (\<lambda>t. nat (target_id t - 1)) ` {t \<in> set ts. in_range t}"
  proof
    assume "n \<in> {n. bit (createSquaresMask ts) n}"
    then obtain t where t: "t \<in> set ts" "in_range t" "target_id t = int n + 1"
      by (auto simp: bit_createSquaresMask)
    then have "n = nat (target_id t - 1)" by simp
    with t show "n \<in> (\<lambda>t. nat (target_id t - 1)) ` {t \<in> set ts. in_range t}"
      by blast
  next
    assume "n \<in> (\<lambda>t. nat (target_id t - 1)) ` {t \<in> set ts. in_range t}"
    then obtain t where t: "t \<in> set ts" "in_range t" "n = nat (target_id t - 1)"
      by blast
    then have "target_id t = int n + 1"
      by (simp add: in_range_def)
    with t show "n \<in> {n. bit (createSquaresMask ts) n}"
      by (auto simp: bit_createSquaresMask)
  qed
qed

lemma card_bits_createSquaresMask:
  assumes d: "distinct (map target_id ts)" and r: "\<forall>t\<in>set ts. in_range t"
  shows "card {n. bit (createSquaresMask ts) n} = length ts"
proof -
  have eq: "(\<lambda>t. nat (target_id t - 1)) ` {t \<in> set ts. in_range t} =
            set (map (\<lambda>t. nat (target_id t - 1)) ts)"
    using r by auto
  have "inj_on (\<lambda>i. nat (i - 1)) (set (map target_id ts))"
  proof (rule inj_onI)
    fix i j
    assume "i \<in> set (map target_id ts)" "j \<in> set (map target_id ts)"
      and e: "nat (i - 1) = nat (j - 1)"
    with r have "1 \<le> i" "1 \<le> j"
      by (auto simp: in_range_def)
    with e show "i = j" by arith
  qed
  with d have "distinct (map (\<lambda>i. nat (i - 1)) (map target_id ts))"
    using distinct_map by blast
  then have "distinct (map (\<lambda>t. nat (target_id t - 1)) ts)"
    by (simp add: comp_def)
  then have "card (set (map (\<lambda>t. nat (target_id t - 1)) ts)) = length ts"
    using distinct_card by fastforce
  then show ?thesis
    by (simp only: set_bits_createSquaresMask eq)
qed

lemma createSquaresMask_high: "25 \<le> n \<Longrightarrow> \<not> bit (createSquaresMask ts) n"
  by (auto simp: bit_createSquaresMask in_range_def)

lemma sint_createSquaresMask: "sint (createSquaresMask ts) = uint (createSquaresMask ts)"
proof (rule bit_eqI)
  fix n
  have "\<not> bit (createSquaresMask ts) 31"
    by (rule createSquaresMask_high) simp
  then show "bit (sint (createSquaresMask ts)) n \<longleftrightarrow> bit (uint (createSquaresMask ts)) n"
    by (auto simp: bit_sint_iff bit_uint_iff dest: bit_imp_le_length)
qed

text \<open>
  The scenario of the specification: the selection of the ids 1, 25 and 26 gives the mask
  with the bits 0 and 24 only.
\<close>

lemma squares_mask_scenario:
  "createSquaresMask [\<lparr>target_id = 1\<rparr>, \<lparr>target_id = 25\<rparr>, \<lparr>target_id = 26\<rparr>] = 16777217"
  by (simp add: createSquaresMask_def mask_step_def)

text \<open>
  C4. Bit \<open>n\<close> of the squares bitmask is set exactly when the selection has a target whose
  id is \<open>n + 1\<close> and lies in [1,25]; targets with an id outside [1,25] change nothing (the
  mask is that of the selection without them) and the function is total, so they raise
  nothing; for a selection without duplicate ids, all in [1,25], the number of set bits is
  the length of the selection; and a permutation of the selection has the same mask.
\<close>

theorem squares_mask_bits:
  "(\<forall>n. bit (createSquaresMask ts) n \<longleftrightarrow>
         (\<exists>t\<in>set ts. target_id t = int n + 1 \<and> 1 \<le> target_id t \<and> target_id t \<le> 25))
   \<and> createSquaresMask (filter (\<lambda>t. 1 \<le> target_id t \<and> target_id t \<le> 25) ts)
       = createSquaresMask ts
   \<and> (distinct (map target_id ts) \<and> (\<forall>t\<in>set ts. 1 \<le> target_id t \<and> target_id t \<le> 25)
        \<longrightarrow> card {n. bit (createSquaresMask ts) n} = length ts)
   \<and> (mset ts' = mset ts \<longrightarrow> createSquaresMask ts' = createSquaresMask ts)"
proof (intro conjI allI impI)
  fix n
  show "bit (createSquaresMask ts) n \<longleftrightarrow>
        (\<exists>t\<in>set ts. target_id t = int n + 1 \<and> 1 \<le> target_id t \<and> target_id t \<le> 25)"
    by (auto simp: bit_createSquaresMask in_range_def)
next
  show "createSquaresMask (filter (\<lambda>t. 1 \<le> target_id t \<and> target_id t \<le> 25) ts)
        = createSquaresMask ts"
    by (rule bit_eqI) (auto simp: bit_createSquaresMask in_range_def)
next
  assume "distinct (map target_id ts) \<and> (\<forall>t\<in>set ts. 1 \<le> target_id t \<and> target_id t \<le> 25)"
  then show "card {n. bit (createSquaresMask ts) n} = length ts"
    by (intro card_bits_createSquaresMask) (auto simp: in_range_def)
next
  assume "mset ts' = mset ts"
  then have "set ts' = set ts"
    by (rule mset_eq_setD)
  then show "createSquaresMask ts' = createSquaresMask ts"
    by (rule createSquaresMask_cong_set)
qed

theorem squares_mask_bits_witness:
  "distinct (map target_id [\<lparr>target_id = 1\<rparr>, \<lparr>target_id = 25\<rparr>])
   \<and> list_all (\<lambda>t. 1 \<le> target_id t \<and> target_id t \<le> 25) [\<lparr>target_id = 1\<rparr>, \<lparr>target_id = 25\<rparr>]
   \<and> mset [\<lparr>target_id = 25\<rparr>, \<lparr>target_id = 1\<rparr>] = mset [\<lparr>target_id = 1\<rparr>, \<lparr>target_id = 25\<rparr>]
   \<and> card {n. bit (createSquaresMask [\<lparr>target_id = 1\<rparr>, \<lparr>target_id = 25\<rparr>]) n} = 2
   \<and> createSquaresMask [\<lparr>target_id = 25\<rparr>, \<lparr>target_id = 1\<rparr>]
       = createSquaresMask [\<lparr>target_id = 1\<rparr>, \<lparr>target_id = 25\<rparr>]
   \<and> bit (createSquaresMask [\<lparr>target_id = 1\<rparr>, \<lparr>target_id = 25\<rparr>]) 24"
proof -
  let ?a = "[\<lparr>target_id = 1\<rparr>, \<lparr>target_id = 25\<rparr>]"
  let ?b = "[\<lparr>target_id = 25\<rparr>, \<lparr>target_id = 1\<rparr>]"
  have h1: "distinct (map target_id ?a)"
    and h2: "\<forall>t\<in>set ?a. 1 \<le> target_id t \<and> target_id t \<le> 25"
    and h3: "mset ?b = mset ?a"
    by (simp_all add: add_mset_commute)
  note T = squares_mask_bits [of ?a ?b]
  from T h1 h2 have "card {n. bit (createSquaresMask ?a) n} = length ?a"
    by blast
  then have c: "card {n. bit (createSquaresMask ?a) n} = 2"
    by simp
  from T h3 have e: "createSquaresMask ?b = createSquaresMask ?a"
    by blast
  from T have "bit (createSquaresMask ?a) 24 \<longleftrightarrow>
      (\<exists>t\<in>set ?a. target_id t = int 24 + 1 \<and> 1 \<le> target_id t \<and> target_id t \<le> 25)"
    by blast
  then have b: "bit (createSquaresMask ?a) 24"
    by simp
  have h2': "list_all (\<lambda>t. 1 \<le> target_id t \<and> target_id t \<le> 25) ?a"
    by simp
  from h1 h2' h3 c e b show ?thesis
    by blast
qed

section \<open>The deploy payload\<close>

lemma le_bytes_Suc: "le_bytes (Suc n) v = of_int v # le_bytes n (v div 256)"
proof -
  have "[0..<Suc n] = 0 # map Suc [0..<n]"
    by (simp add: upt_conv_Cons map_Suc_upt del: upt_Suc)
  then have "le_bytes (Suc n) v = of_int (v div 256 ^ 0) # map (\<lambda>i. of_int (v div 256 ^ Suc i)) [0..<n]"
    by (simp add: le_bytes_def comp_def del: upt_Suc)
  also have "\<dots> = of_int v # le_bytes n (v div 256)"
    by (simp add: le_bytes_def div_mult2_eq zdiv_zmult2_eq)
  finally show ?thesis .
qed

lemma length_le_bytes [simp]: "length (le_bytes n v) = n"
  by (simp add: le_bytes_def)

lemma le_value_le_bytes: "0 \<le> v \<Longrightarrow> le_value (le_bytes n v) = v mod 256 ^ n"
proof (induction n arbitrary: v)
  case 0
  then show ?case by (simp add: le_bytes_def)
next
  case (Suc n)
  have u: "uint (of_int v :: 8 word) = v mod 256"
    by (simp add: uint_word_of_int)
  from Suc.prems have "0 \<le> v div 256" by simp
  then have "le_value (le_bytes n (v div 256)) = (v div 256) mod 256 ^ n"
    by (rule Suc.IH)
  then have "le_value (le_bytes (Suc n) v) = v mod 256 + 256 * ((v div 256) mod 256 ^ n)"
    by (simp add: le_bytes_Suc u)
  also have "\<dots> = v mod 256 ^ Suc n"
    using Suc.prems by (simp add: zmod_zmult2_eq)
  finally show ?case .
qed

lemma write_le_eq:
  "off + n \<le> length buf \<Longrightarrow>
   write_le buf v off n = take off buf @ le_bytes n v @ drop (off + n) buf"
proof (induction n)
  case 0
  then show ?case by (simp add: write_le_def le_bytes_def)
next
  case (Suc n)
  then have IH: "write_le buf v off n = take off buf @ le_bytes n v @ drop (off + n) buf"
    by simp
  have "write_le buf v off (Suc n) = (write_le buf v off n)[off + n := of_int (v div 256 ^ n)]"
    by (simp add: write_le_def)
  also have "\<dots> = take off buf @ (le_bytes n v @ drop (off + n) buf)[n := of_int (v div 256 ^ n)]"
    using Suc.prems by (simp add: IH list_update_append)
  also have "(le_bytes n v @ drop (off + n) buf)[n := of_int (v div 256 ^ n)]
             = le_bytes n v @ (drop (off + n) buf)[0 := of_int (v div 256 ^ n)]"
    by (simp add: list_update_append)
  also have "(drop (off + n) buf)[0 := of_int (v div 256 ^ n)]
             = of_int (v div 256 ^ n) # drop (off + Suc n) buf"
    using Suc.prems by (simp add: Cons_nth_drop_Suc[symmetric])
  also have "le_bytes n v @ of_int (v div 256 ^ n) # drop (off + Suc n) buf
             = le_bytes (Suc n) v @ drop (off + Suc n) buf"
    by (simp add: le_bytes_def)
  finally show ?case by simp
qed

lemma writeUInt8_alloc: "0 \<le> v \<Longrightarrow> v < 256 \<Longrightarrow> off < n \<Longrightarrow>
  writeUInt8 (Buffer_alloc n) v off = Inr (replicate off 0 @ [of_int v] @ replicate (n - Suc off) 0)"
  by (simp add: writeUInt8_def Buffer_alloc_def write_le_eq le_bytes_def)

lemma checkpointData: "writeUInt8 (Buffer_alloc 1) 2 0 = Inr [2]"
  by (simp add: writeUInt8_alloc)

lemma deployData_eq:
  "deployData amount (createSquaresMask ts) =
     (if 0 \<le> amount \<and> amount < 2 ^ 64
      then Inr (6 # le_bytes 8 amount @ le_bytes 4 (uint (createSquaresMask ts)))
      else Inl (RangeError ''The value is out of range''))"
proof -
  have b1: "writeUInt8 (Buffer_alloc 13) 6 0 = Inr (6 # replicate 12 0)"
    by (simp add: writeUInt8_alloc)
  have b2: "writeBigUInt64LE (6 # replicate 12 0) amount 1 = Inr (6 # le_bytes 8 amount @ replicate 4 0)"
    if "0 \<le> amount \<and> amount < 2 ^ 64"
    using that by (simp add: writeBigUInt64LE_def write_le_eq)
  have m: "0 \<le> uint (createSquaresMask ts)" "uint (createSquaresMask ts) < 2 ^ 32"
    using uint_lt2p[of "createSquaresMask ts"] by simp_all
  have b3: "writeUInt32LE (6 # le_bytes 8 amount @ replicate 4 0) (uint (createSquaresMask ts)) 9
            = Inr (6 # le_bytes 8 amount @ le_bytes 4 (uint (createSquaresMask ts)))"
    using m by (simp add: writeUInt32LE_def write_le_eq)
  show ?thesis
  proof (cases "0 \<le> amount \<and> amount < 2 ^ 64")
    case True
    note b2' = b2 [OF True]
    from True show ?thesis
      by (simp add: deployData_def b1 b2' b3 sint_createSquaresMask del: One_nat_def)
  next
    case False
    then have "writeBigUInt64LE (6 # replicate 12 0) amount 1
               = Inl (RangeError ''The value is out of range'')"
      by (auto simp: writeBigUInt64LE_def)
    with False show ?thesis
      by (simp add: deployData_def b1 del: One_nat_def)
  qed
qed

text \<open>
  C8. Whatever the selection is, the buffer writes of the deploy payload succeed exactly for
  a stake amount that is an unsigned 64-bit integer, and the payload is then 13 bytes:
  the opcode byte 6, the 8 bytes of the amount, least significant first, and the 4 bytes of
  the squares bitmask, least significant first.
\<close>

theorem deploy_payload_layout:
  "((\<exists>d. deployData amount (createSquaresMask targets) = Inr d)
      \<longleftrightarrow> 0 \<le> amount \<and> amount < 2 ^ 64)
   \<and> (\<forall>d. deployData amount (createSquaresMask targets) = Inr d \<longrightarrow>
          length d = 13
        \<and> d = [6] @ le_bytes 8 amount @ le_bytes 4 (uint (createSquaresMask targets))
        \<and> le_value (take 1 d) = 6
        \<and> le_value (take 8 (drop 1 d)) = amount
        \<and> le_value (drop 9 d) = uint (createSquaresMask targets))"
proof (intro conjI allI impI)
  show "(\<exists>d. deployData amount (createSquaresMask targets) = Inr d)
        \<longleftrightarrow> 0 \<le> amount \<and> amount < 2 ^ 64"
    by (simp add: deployData_eq)
next
  fix d
  assume "deployData amount (createSquaresMask targets) = Inr d"
  then have r: "0 \<le> amount" "amount < 2 ^ 64"
    and d: "d = 6 # le_bytes 8 amount @ le_bytes 4 (uint (createSquaresMask targets))"
    by (auto simp: deployData_eq split: if_splits)
  have m: "uint (createSquaresMask targets) mod 256 ^ 4 = uint (createSquaresMask targets)"
    using uint_lt2p [of "createSquaresMask targets"] by simp
  show "length d = 13"
    by (simp add: d)
  show "d = [6] @ le_bytes 8 amount @ le_bytes 4 (uint (createSquaresMask targets))"
    by (simp add: d)
  show "le_value (take 1 d) = 6"
    by (simp add: d)
  show "le_value (take 8 (drop 1 d)) = amount"
    using r by (simp add: d le_value_le_bytes)
  show "le_value (drop 9 d) = uint (createSquaresMask targets)"
    using m by (simp add: d le_value_le_bytes)
qed

theorem deploy_payload_layout_witness:
  "deployData 249999999 (createSquaresMask [\<lparr>target_id = 1\<rparr>, \<lparr>target_id = 25\<rparr>, \<lparr>target_id = 26\<rparr>])
     = Inr [6, 127, 178, 230, 14, 0, 0, 0, 0, 1, 0, 0, 1]
   \<and> length [6 :: 8 word, 127, 178, 230, 14, 0, 0, 0, 0, 1, 0, 0, 1] = 13
   \<and> le_value (take 8 (drop 1 [6, 127, 178, 230, 14, 0, 0, 0, 0, 1, 0, 0, 1])) = 249999999"
proof -
  let ?ts = "[\<lparr>target_id = 1\<rparr>, \<lparr>target_id = 25\<rparr>, \<lparr>target_id = 26\<rparr>]"
  have e: "deployData 249999999 (createSquaresMask ?ts)
           = Inr [6, 127, 178, 230, 14, 0, 0, 0, 0, 1, 0, 0, 1]"
    by (subst deployData_eq) (simp add: squares_mask_scenario le_bytes_def upt_rec)
  note T = deploy_payload_layout [of 249999999 ?ts]
  from T e have "length [6 :: 8 word, 127, 178, 230, 14, 0, 0, 0, 0, 1, 0, 0, 1] = 13
      \<and> le_value (take 8 (drop 1 [6, 127, 178, 230, 14, 0, 0, 0, 0, 1, 0, 0, 1])) = 249999999"
    by blast
  with e show ?thesis
    by blast
qed

section \<open>Rounding to binary64\<close>

lemma pow2_powi: "pow2 e = 2 powi e"
  by (simp add: pow2_def power_int_def inverse_eq_divide power_one_over)

lemma pow2_pos: "0 < pow2 e"
  by (simp add: pow2_powi)

lemma pow2_add: "pow2 (a + b) = pow2 a * pow2 b"
  by (simp add: pow2_powi power_int_add)

lemma pow2_diff: "pow2 (a - b) = pow2 a / pow2 b"
  by (simp add: pow2_powi power_int_diff)

lemma pow2_mono: "a \<le> b \<Longrightarrow> pow2 a \<le> pow2 b"
  by (simp add: pow2_powi power_int_increasing)

lemma pow2_less_imp_less: "pow2 a < pow2 b \<Longrightarrow> a < b"
  using pow2_mono [of b a] by (cases "a < b") simp_all

lemma pow2_nat: "0 \<le> e \<Longrightarrow> pow2 e = 2 ^ nat e"
  by (simp add: pow2_def)

lemma ilog2_bounds:
  assumes "0 < q"
  shows "pow2 (ilog2 q) \<le> q \<and> q < pow2 (ilog2 q + 1)"
proof -
  obtain a b where ab: "quotient_of q = (a, b)"
    by (cases "quotient_of q")
  then have b: "0 < b" and q: "q = of_int a / of_int b"
    by (simp_all add: quotient_of_denom_pos quotient_of_div)
  with assms have a: "0 < a"
    by (simp add: zero_less_divide_iff)
  define la lb where "la = bitlen a" and "lb = bitlen b"
  have la: "1 \<le> la" and lb: "1 \<le> lb"
    using a b by (simp_all add: la_def lb_def bitlen_alt_def)
  have "a < 2 ^ nat la" "2 ^ nat (lb - 1) \<le> b" "2 ^ nat (la - 1) \<le> a" "b < 2 ^ nat lb"
    using bitlen_bounds [OF a] bitlen_bounds [OF b] by (simp_all add: la_def lb_def)
  then have "(of_int a :: rat) < of_int (2 ^ nat la)" "(of_int (2 ^ nat (lb - 1)) :: rat) \<le> of_int b"
    "(of_int (2 ^ nat (la - 1)) :: rat) \<le> of_int a" "(of_int b :: rat) < of_int (2 ^ nat lb)"
    by (simp_all only: of_int_less_iff of_int_le_iff)
  then have A: "(of_int a :: rat) < pow2 la" "pow2 (lb - 1) \<le> (of_int b :: rat)"
    "pow2 (la - 1) \<le> (of_int a :: rat)" "(of_int b :: rat) < pow2 lb"
    using la lb by (simp_all add: pow2_nat)
  have b': "0 < (of_int b :: rat)" and a': "0 < (of_int a :: rat)"
    using a b by simp_all
  have up: "q < pow2 (la - lb + 1)"
  proof -
    have "q * of_int b = of_int a"
      using b' by (simp add: q)
    also have "\<dots> < pow2 la" by (rule A)
    also have "pow2 la = pow2 (la - lb + 1) * pow2 (lb - 1)"
      by (simp add: pow2_add [symmetric])
    also have "\<dots> \<le> pow2 (la - lb + 1) * of_int b"
      using A(2) pow2_pos [of "la - lb + 1"] by (simp add: mult_left_mono)
    finally show ?thesis
      using b' by simp
  qed
  have low: "pow2 (la - lb - 1) \<le> q"
  proof -
    have "pow2 (la - lb - 1) * of_int b \<le> pow2 (la - lb - 1) * pow2 lb"
      using A(4) pow2_pos [of "la - lb - 1"] by (simp add: mult_left_mono)
    also have "\<dots> = pow2 (la - 1)"
      by (simp add: pow2_add [symmetric])
    also have "\<dots> \<le> of_int a" by (rule A)
    also have "\<dots> = q * of_int b"
      using b' by (simp add: q)
    finally show ?thesis
      using b' by simp
  qed
  show ?thesis
  proof (cases "pow2 (la - lb) \<le> q")
    case True
    then have "ilog2 q = la - lb"
      by (simp add: ilog2_def ab la_def lb_def)
    with True up show ?thesis by simp
  next
    case False
    then have "ilog2 q = la - lb - 1"
      by (simp add: ilog2_def ab la_def lb_def)
    with False low show ?thesis by simp
  qed
qed

lemma ilog2_unique:
  assumes "pow2 e \<le> q" "q < pow2 (e + 1)"
  shows "ilog2 q = e"
proof -
  have q: "0 < q"
    using assms(1) pow2_pos [of e] by simp
  from ilog2_bounds [OF q] assms have "pow2 (ilog2 q) < pow2 (e + 1)" "pow2 e < pow2 (ilog2 q + 1)"
    by simp_all
  then have "ilog2 q < e + 1" "e < ilog2 q + 1"
    by (simp_all only: pow2_less_imp_less)
  then show ?thesis by simp
qed

lemma rne_nearest:
  assumes "\<bar>x - of_int m\<bar> < 1 / 2"
  shows "rne x = m"
proof -
  define f where "f = \<lfloor>x\<rfloor>"
  have f: "of_int f \<le> x" "x < of_int f + 1"
    by (simp_all add: f_def) linarith
  from assms have "x - of_int m < 1 / 2" "- (x - of_int m) < 1 / 2"
    by (simp_all only: abs_less_iff)
  then have m: "x - 1 / 2 < of_int m" "of_int m < x + 1 / 2"
    by linarith+
  have "(of_int m :: rat) < of_int (f + 2)" "(of_int (f - 1) :: rat) < of_int m"
    using f m by simp_all
  then have r: "m < f + 2" "f - 1 < m"
    by (simp_all only: of_int_less_iff)
  show ?thesis
  proof (cases "x - of_int f < 1 / 2")
    case True
    with m have "(of_int m :: rat) < of_int (f + 1)" by simp
    then have "m < f + 1" by (simp only: of_int_less_iff)
    with r have "m = f" by simp
    with True show ?thesis by (simp add: rne_def f_def)
  next
    case False
    with m have "(of_int f :: rat) < of_int m" by simp
    then have "f < m" by (simp only: of_int_less_iff)
    with r have mf: "m = f + 1" by simp
    with m have "1 / 2 < x - of_int f" by simp
    with mf show ?thesis by (simp add: rne_def f_def)
  qed
qed

lemma round64_pos:
  assumes "pow2 e \<le> q" "q < pow2 (e + 1)" "- 1022 \<le> e"
    and "\<bar>q / pow2 (e - 52) - of_int m\<bar> < 1 / 2"
    and "of_int m * pow2 (e - 52) < pow2 1024"
  shows "round64 q = Fin (of_int m * pow2 (e - 52))"
proof -
  have q: "0 < q"
    using assms(1) pow2_pos [of e] by simp
  have e: "max (ilog2 q) (- 1022) = e"
    using ilog2_unique [OF assms(1,2)] assms(3) by simp
  have m: "rne (q / pow2 (e - 52)) = m"
    using assms(4) by (rule rne_nearest)
  show ?thesis
    using q assms(5) by (simp add: round64_def e m Let_def)
qed

lemma BigInt_floor:
  "BigInt (Math_floor x) = Inr a \<longleftrightarrow> (\<exists>q. x = Fin q \<and> a = \<lfloor>q\<rfloor>)"
  by (cases x) auto

lemma amountLamports_iff:
  "amountLamports env st = Inr a \<longleftrightarrow>
     (\<exists>q. js_div (customDeployAmount st) (SOL_PER_LAMPORT env) = Fin q \<and> a = \<lfloor>q\<rfloor>)"
  by (simp add: amountLamports_def BigInt_floor)

lemma feeAmountLamports_iff:
  "feeAmountLamports env st targets = Inr b \<longleftrightarrow>
     (\<exists>f. js_div (js_mul (js_mul (customDeployAmount st) (Number_of_nat (length targets)))
                         one_percent)
                 (SOL_PER_LAMPORT env) = Fin f \<and> b = \<lfloor>f\<rfloor>)"
  by (simp add: feeAmountLamports_def BigInt_floor)

lemma truncate_floor: "0 \<le> \<lfloor>q\<rfloor> \<Longrightarrow> truncate q = \<lfloor>q\<rfloor>"
  by (simp add: truncate_def)

section \<open>The shape of a deploy cycle\<close>

lemma say_simps [simp]:
  "logged (say ls) = ls" "submitted (say ls) = None" "fatal (say ls) = None"
  by (simp_all add: say_def)

lemma catchDeploy_simps [simp]:
  "submitted (catchDeploy conn eff e) = submitted eff"
  "fatal (catchDeploy conn eff e) = Some (e, fst (recoverLogs conn e))"
  "logged (catchDeploy conn eff e) = logged eff @ snd (recoverLogs conn e)"
  by (simp_all add: catchDeploy_def split: prod.splits)

lemma checkpointLogic_eligible:
  assumes "r \<noteq> c" "r < R"
  shows "\<exists>keys. checkpointLogic env signer R r c
                  = Inr ([TransactionInstruction keys (ORE_PROGRAM_ID env) [2]], [])
               \<and> length keys = 6
               \<and> keys ! 3 = \<lparr>pubkey = getRoundPda env r, isSigner = False, isWritable = True\<rparr>"
  using assms by (simp add: checkpointLogic_def checkpointData del: One_nat_def)

lemma checkpointLogic_ineligible:
  assumes "r \<noteq> c" "\<not> r < R"
  shows "checkpointLogic env signer R r c
           = Inr ([], [''warning: state dirty but round '' @ toString r
                       @ '' is current. skipping checkpoint.''])"
  using assms by (simp add: checkpointLogic_def)

lemma checkpointLogic_clean:
  "checkpointLogic env signer R r r = Inr ([], [])"
  by (simp add: checkpointLogic_def)

lemma tryDeploy_not_ready:
  "\<not> roundReady env st conn \<Longrightarrow> submitted (fst (tryDeploy env st conn targets signer)) = None"
  by (auto simp: tryDeploy_def roundReady_def split: sum.splits option.splits)

lemma tryDeploy_ready:
  assumes "roundReady env st conn"
  shows "tryDeploy env st conn targets signer =
    (case fetchMinerState env conn (publicKey signer) of
       Inl e \<Rightarrow> (say [], Some e)
     | Inr (minerRoundId, minerCheckpointId) \<Rightarrow>
         (case checkpointLogic env signer (currentRoundId st) minerRoundId minerCheckpointId of
            Inl e \<Rightarrow> (say [], Some e)
          | Inr (checkpoint, warnings) \<Rightarrow>
              (case feeAndDeploy env st targets signer of
                 Inl e \<Rightarrow> (say warnings, Some e)
               | Inr rest \<Rightarrow>
                   (let transaction = computeBudget @ checkpoint @ rest;
                        sending = warnings @ [''sending deploy tx for ''
                                    @ toString (length targets) @ '' target(s)...'']
                    in case sendAndConfirmTransaction conn transaction [signer] of
                         Inl e \<Rightarrow>
                           (\<lparr>logged = sending, submitted = Some transaction, fatal = None\<rparr>,
                            Some e)
                       | Inr signature \<Rightarrow>
                           (\<lparr>logged = sending @ [''deploy successful! signature: ''
                                        @ take 16 signature @ ''...''],
                             submitted = Some transaction, fatal = None\<rparr>,
                            None)))))"
  using assms by (auto simp: tryDeploy_def roundReady_def split: sum.splits option.splits)

lemma tryDeploy_submitted:
  "submitted (fst (tryDeploy env st conn targets signer)) = Some tx \<longleftrightarrow>
     roundReady env st conn \<and>
     (\<exists>r c cp w rest.
        fetchMinerState env conn (publicKey signer) = Inr (r, c)
      \<and> checkpointLogic env signer (currentRoundId st) r c = Inr (cp, w)
      \<and> feeAndDeploy env st targets signer = Inr rest
      \<and> tx = computeBudget @ cp @ rest)"
proof (cases "roundReady env st conn")
  case False
  then show ?thesis by (simp add: tryDeploy_not_ready)
next
  case True
  note td = tryDeploy_ready [OF True, of targets signer]
  show ?thesis
  proof (cases "fetchMinerState env conn (publicKey signer)")
    case (Inl e)
    then show ?thesis by (simp add: td)
  next
    case (Inr rc)
    obtain r c where rc: "rc = (r, c)" by (cases rc)
    show ?thesis
    proof (cases "checkpointLogic env signer (currentRoundId st) r c")
      case (Inl e)
      then show ?thesis by (simp add: td Inr rc)
    next
      case cl: (Inr cw)
      obtain cp w where cw: "cw = (cp, w)" by (cases cw)
      show ?thesis
      proof (cases "feeAndDeploy env st targets signer")
        case (Inl e)
        then show ?thesis by (simp add: td Inr rc cl cw)
      next
        case fd: (Inr rest)
        have "submitted (fst (tryDeploy env st conn targets signer))
              = Some (computeBudget @ cp @ rest)"
          by (simp add: td Inr rc cl cw fd Let_def split: sum.splits)
        then show ?thesis
          using True by (auto simp: Inr rc cl cw fd)
      qed
    qed
  qed
qed

lemma sendDeployTx_submitted:
  "submitted (sendDeployTx env st targets conn signer_opt) = Some tx \<longleftrightarrow>
     (\<exists>signer r c cp w rest.
        signer_opt = Some signer \<and> targets \<noteq> [] \<and> roundReady env st conn
      \<and> fetchMinerState env conn (publicKey signer) = Inr (r, c)
      \<and> checkpointLogic env signer (currentRoundId st) r c = Inr (cp, w)
      \<and> feeAndDeploy env st targets signer = Inr rest
      \<and> tx = computeBudget @ cp @ rest)"
proof (cases signer_opt)
  case None
  then show ?thesis by (simp add: sendDeployTx_def)
next
  case (Some signer)
  show ?thesis
  proof (cases "targets = []")
    case True
    with Some show ?thesis by (simp add: sendDeployTx_def)
  next
    case False
    obtain eff th where t: "tryDeploy env st conn targets signer = (eff, th)"
      by (cases "tryDeploy env st conn targets signer")
    have "sendDeployTx env st targets conn signer_opt
          = (case th of None \<Rightarrow> eff | Some e \<Rightarrow> catchDeploy conn eff e)"
      using Some False by (simp add: sendDeployTx_def t)
    then have "submitted (sendDeployTx env st targets conn signer_opt) = submitted eff"
      by (cases th) simp_all
    then have "submitted (sendDeployTx env st targets conn signer_opt)
          = submitted (fst (tryDeploy env st conn targets signer))"
      by (simp add: t)
    then have "submitted (sendDeployTx env st targets conn signer_opt) = Some tx \<longleftrightarrow>
          submitted (fst (tryDeploy env st conn targets signer)) = Some tx"
      by (rule arg_cong)
    with Some False show ?thesis
      by (simp only: tryDeploy_submitted) simp
  qed
qed

lemma feeAndDeploy_eq:
  "feeAndDeploy env st targets signer = Inr rest \<longleftrightarrow>
     (\<exists>amount fee.
        amountLamports env st = Inr amount \<and> feeAmountLamports env st targets = Inr fee
      \<and> 0 \<le> amount \<and> amount < 2 ^ 64
      \<and> rest = (if 0 < fee then [SystemTransfer (publicKey signer) feeRecipient fee] else [])
               @ [TransactionInstruction (deployAccounts env st signer) (ORE_PROGRAM_ID env)
                    (6 # le_bytes 8 amount @ le_bytes 4 (uint (createSquaresMask targets)))])"
proof (cases "amountLamports env st")
  case (Inl e)
  then show ?thesis by (simp add: feeAndDeploy_def)
next
  case (Inr amount)
  show ?thesis
  proof (cases "feeAmountLamports env st targets")
    case (Inl e)
    with Inr show ?thesis by (simp add: feeAndDeploy_def)
  next
    case fee: (Inr fee)
    show ?thesis
    proof (cases "0 \<le> amount \<and> amount < 2 ^ 64")
      case True
      then have "feeAndDeploy env st targets signer
          = Inr ((if 0 < fee then [SystemTransfer (publicKey signer) feeRecipient fee] else [])
                 @ [TransactionInstruction (deployAccounts env st signer) (ORE_PROGRAM_ID env)
                      (6 # le_bytes 8 amount @ le_bytes 4 (uint (createSquaresMask targets)))])"
        by (simp add: feeAndDeploy_def Inr fee deployData_eq)
      with True show ?thesis
        by (auto simp: Inr fee)
    next
      case False
      then have "feeAndDeploy env st targets signer = Inl (RangeError ''The value is out of range'')"
        by (simp add: feeAndDeploy_def Inr fee deployData_eq)
      with False show ?thesis
        by (auto simp: Inr fee)
    qed
  qed
qed

lemma is_deploy_payload:
  "is_deploy (TransactionInstruction ks p (6 # le_bytes 8 a @ le_bytes 4 m))"
  by (simp add: is_deploy_def)

lemma not_checkpoint_payload:
  "\<not> is_checkpoint (TransactionInstruction ks p (6 # le_bytes 8 a @ le_bytes 4 m))"
  by (simp add: is_checkpoint_def)

lemma feeAndDeploy_shape:
  assumes "feeAndDeploy env st targets signer = Inr rest"
  shows "rest \<noteq> []" "is_deploy (last rest)" "\<forall>i\<in>set rest. \<not> is_checkpoint i"
    "\<forall>i\<in>set (butlast rest). is_fee_transfer i"
  using assms unfolding feeAndDeploy_eq
  by (auto simp: is_deploy_payload not_checkpoint_payload is_checkpoint_def is_fee_transfer_def)

lemma computeBudget_no_checkpoint: "\<forall>i\<in>set computeBudget. \<not> is_checkpoint i"
  by (simp add: computeBudget_def is_checkpoint_def)

lemma fetchMinerState_record:
  assumes "getAccountInfo conn (getMinerPda env authority) = Inr (Some data)"
    and "parseMiner env data = Inr m"
  shows "fetchMinerState env conn authority = Inr (round_id m, checkpoint_id m)"
  using assms by (simp add: fetchMinerState_def)

lemma fetchMinerState_absent:
  assumes "getAccountInfo conn (getMinerPda env authority) = Inr None"
  shows "fetchMinerState env conn authority = Inr (0, 0)"
  using assms by (simp add: fetchMinerState_def)

lemma tryDeploy_reached:
  assumes "roundReady env st conn"
    and "fetchMinerState env conn (publicKey signer) = Inr (r, c)"
    and "checkpointLogic env signer (currentRoundId st) r c = Inr (cp, w)"
  shows "\<exists>more. logged (fst (tryDeploy env st conn targets signer)) = w @ more"
    and "submitted (fst (tryDeploy env st conn targets signer))
         = (case feeAndDeploy env st targets signer of
              Inl e \<Rightarrow> None
            | Inr rest \<Rightarrow> Some (computeBudget @ cp @ rest))"
    and "fatal (fst (tryDeploy env st conn targets signer)) = None"
  using assms(2,3)
  by (simp_all add: tryDeploy_ready [OF assms(1)] Let_def split: sum.splits)

lemma sendDeployTx_via_try:
  assumes "targets \<noteq> []"
  shows "submitted (sendDeployTx env st targets conn (Some signer))
         = submitted (fst (tryDeploy env st conn targets signer))"
    and "\<exists>more. logged (sendDeployTx env st targets conn (Some signer))
                  = logged (fst (tryDeploy env st conn targets signer)) @ more"
    and "fatal (sendDeployTx env st targets conn (Some signer))
         = (case snd (tryDeploy env st conn targets signer) of
              None \<Rightarrow> fatal (fst (tryDeploy env st conn targets signer))
            | Some e \<Rightarrow> Some (e, fst (recoverLogs conn e)))"
proof -
  obtain eff th where t: "tryDeploy env st conn targets signer = (eff, th)"
    by (cases "tryDeploy env st conn targets signer")
  have r: "sendDeployTx env st targets conn (Some signer)
           = (case th of None \<Rightarrow> eff | Some e \<Rightarrow> catchDeploy conn eff e)"
    using assms by (simp add: sendDeployTx_def t)
  show "submitted (sendDeployTx env st targets conn (Some signer))
         = submitted (fst (tryDeploy env st conn targets signer))"
    by (cases th) (simp_all add: r t)
  show "\<exists>more. logged (sendDeployTx env st targets conn (Some signer))
                  = logged (fst (tryDeploy env st conn targets signer)) @ more"
    by (cases th) (simp_all add: r t)
  show "fatal (sendDeployTx env st targets conn (Some signer))
         = (case snd (tryDeploy env st conn targets signer) of
              None \<Rightarrow> fatal (fst (tryDeploy env st conn targets signer))
            | Some e \<Rightarrow> Some (e, fst (recoverLogs conn e)))"
    by (cases th) (simp_all add: r t)
qed

lemma checkpointLogic_shape:
  assumes "checkpointLogic env signer R r c = Inr (cp, w)"
  shows "\<exists>i. is_checkpoint i \<and> cp = (if r \<noteq> c \<and> r < R then [i] else [])"
proof (cases "r \<noteq> c \<and> r < R")
  case True
  then obtain keys where
    "checkpointLogic env signer R r c
     = Inr ([TransactionInstruction keys (ORE_PROGRAM_ID env) [2]], [])"
    using checkpointLogic_eligible [of r c R env signer] by blast
  with assms True show ?thesis
    by (auto simp: is_checkpoint_def)
next
  case False
  then have "cp = []"
    using assms checkpointLogic_ineligible [of r c R env signer]
      checkpointLogic_clean [of env signer R r]
    by (cases "r = c") auto
  moreover have "is_checkpoint (TransactionInstruction [] [] [2])"
    by (simp add: is_checkpoint_def)
  ultimately show ?thesis
    using False by auto
qed

lemma submitted_transaction_parts:
  assumes "submitted (sendDeployTx env st targets conn signer_opt) = Some tx"
  shows "\<exists>signer r c cp w amount fee.
           signer_opt = Some signer
         \<and> fetchMinerState env conn (publicKey signer) = Inr (r, c)
         \<and> checkpointLogic env signer (currentRoundId st) r c = Inr (cp, w)
         \<and> amountLamports env st = Inr amount
         \<and> feeAmountLamports env st targets = Inr fee
         \<and> tx = computeBudget @ cp
                @ (if 0 < fee then [SystemTransfer (publicKey signer) feeRecipient fee] else [])
                @ [TransactionInstruction (deployAccounts env st signer) (ORE_PROGRAM_ID env)
                     (6 # le_bytes 8 amount @ le_bytes 4 (uint (createSquaresMask targets)))]"
proof -
  from assms obtain signer r c cp w rest where
    s: "signer_opt = Some signer"
    and ms: "fetchMinerState env conn (publicKey signer) = Inr (r, c)"
    and cl: "checkpointLogic env signer (currentRoundId st) r c = Inr (cp, w)"
    and fd: "feeAndDeploy env st targets signer = Inr rest"
    and tx: "tx = computeBudget @ cp @ rest"
    unfolding sendDeployTx_submitted by blast
  from fd obtain amount fee where
    am: "amountLamports env st = Inr amount"
    and fe: "feeAmountLamports env st targets = Inr fee"
    and rest: "rest = (if 0 < fee then [SystemTransfer (publicKey signer) feeRecipient fee] else [])
                 @ [TransactionInstruction (deployAccounts env st signer) (ORE_PROGRAM_ID env)
                      (6 # le_bytes 8 amount @ le_bytes 4 (uint (createSquaresMask targets)))]"
    unfolding feeAndDeploy_eq by blast
  from s ms cl am fe tx rest show ?thesis
    by blast
qed

lemma sendDeployTx_failure:
  assumes "submitted (sendDeployTx env st targets conn (Some signer)) = Some tx"
    and "sendAndConfirmTransaction conn tx [signer] = Inl e"
  shows "fatal (sendDeployTx env st targets conn (Some signer)) = Some (e, fst (recoverLogs conn e))"
proof -
  from assms(1) obtain r c cp w rest where
    ne: "targets \<noteq> []" and ready: "roundReady env st conn"
    and ms: "fetchMinerState env conn (publicKey signer) = Inr (r, c)"
    and cl: "checkpointLogic env signer (currentRoundId st) r c = Inr (cp, w)"
    and fd: "feeAndDeploy env st targets signer = Inr rest"
    and tx: "tx = computeBudget @ cp @ rest"
    unfolding sendDeployTx_submitted by auto
  have "snd (tryDeploy env st conn targets signer) = Some e"
    using assms(2) by (simp add: tryDeploy_ready [OF ready] ms cl fd tx Let_def)
  then show ?thesis
    by (simp add: sendDeployTx_via_try(3) [OF ne])
qed

section \<open>The checkpoint transaction, characterised\<close>

lemma includes_str_iff: "includes_str s m \<longleftrightarrow> (\<exists>p q. s = p @ m @ q)"
proof (induction s)
  case Nil
  then show ?case by auto
next
  case (Cons c cs)
  show ?case
  proof
    assume "includes_str (c # cs) m"
    then consider "prefix m (c # cs)" | "includes_str cs m" by auto
    then show "\<exists>p q. c # cs = p @ m @ q"
    proof cases
      case 1
      then obtain q where "c # cs = m @ q" by (auto simp: prefix_def)
      then have "c # cs = [] @ m @ q" by simp
      then show ?thesis by blast
    next
      case 2
      with Cons.IH obtain p q where "cs = p @ m @ q" by blast
      then have "c # cs = (c # p) @ m @ q" by simp
      then show ?thesis by blast
    qed
  next
    assume "\<exists>p q. c # cs = p @ m @ q"
    then obtain p q where pq: "c # cs = p @ m @ q" by blast
    show "includes_str (c # cs) m"
    proof (cases p)
      case Nil
      with pq have "prefix m (c # cs)" by (simp add: prefix_def)
      then show ?thesis by simp
    next
      case (Cons a p')
      with pq have "cs = p' @ m @ q" by simp
      with Cons.IH have "includes_str cs m" by blast
      then show ?thesis by simp
    qed
  qed
qed

lemma sendCheckpointTx_submitted:
  "submitted (snd (sendCheckpointTx env rnd conn (Some signer))) = Some tx \<longleftrightarrow>
     tx = [TransactionInstruction
             [\<lparr>pubkey = publicKey signer, isSigner = True, isWritable = True\<rparr>,
              \<lparr>pubkey = getBoardPda env, isSigner = False, isWritable = True\<rparr>,
              \<lparr>pubkey = getMinerPda env (publicKey signer), isSigner = False, isWritable = True\<rparr>,
              \<lparr>pubkey = getRoundPda env rnd, isSigner = False, isWritable = True\<rparr>,
              \<lparr>pubkey = getTreasuryPda env, isSigner = False, isWritable = True\<rparr>,
              \<lparr>pubkey = SYSTEM_PROGRAM_ID env, isSigner = False, isWritable = False\<rparr>]
             (ORE_PROGRAM_ID env) [2]]"
  by (auto simp: sendCheckpointTx_def checkpointData Let_def
      split: sum.splits simp del: One_nat_def)

lemma sendCheckpointTx_failure:
  assumes "submitted (snd (sendCheckpointTx env rnd conn (Some signer))) = Some tx"
    and "sendAndConfirmTransaction conn tx [signer] = Inl e"
  shows "sendCheckpointTx env rnd conn (Some signer) =
     (if includes_str (case logs e of Some ls \<Rightarrow> join_lines ls | None \<Rightarrow> message e)
           ''custom program error: 0x1''
      then (True, \<lparr>logged = [''checkpoint for round '' @ toString rnd
                              @ '' already done or not needed''],
                   submitted = Some tx, fatal = None\<rparr>)
      else (False, \<lparr>logged = [], submitted = Some tx, fatal = Some (e, None)\<rparr>))"
proof -
  from assms(1) have tx: "tx = [TransactionInstruction
             [\<lparr>pubkey = publicKey signer, isSigner = True, isWritable = True\<rparr>,
              \<lparr>pubkey = getBoardPda env, isSigner = False, isWritable = True\<rparr>,
              \<lparr>pubkey = getMinerPda env (publicKey signer), isSigner = False, isWritable = True\<rparr>,
              \<lparr>pubkey = getRoundPda env rnd, isSigner = False, isWritable = True\<rparr>,
              \<lparr>pubkey = getTreasuryPda env, isSigner = False, isWritable = True\<rparr>,
              \<lparr>pubkey = SYSTEM_PROGRAM_ID env, isSigner = False, isWritable = False\<rparr>]
             (ORE_PROGRAM_ID env) [2]]"
    by (simp only: sendCheckpointTx_submitted)
  from assms(2) show ?thesis
    unfolding tx
    by (simp add: sendCheckpointTx_def checkpointData Let_def benign_marker_def
        del: One_nat_def)
qed

section \<open>The concrete run, evaluated\<close>

lemma demo_amount: "amountLamports demo_env demo_state = Inr 499999999"
proof -
  have "round64 ((1 / 2) / (4835703278458517 / 2 ^ 82))
        = Fin (of_int 8388607999999999 * pow2 (28 - 52))"
    by (rule round64_pos) (simp_all add: pow2_def)
  then have "js_div (Fin (1 / 2)) (Fin (4835703278458517 / 2 ^ 82))
             = Fin (8388607999999999 / 2 ^ 24)"
    by (simp add: pow2_def)
  moreover have "\<lfloor>(8388607999999999 :: rat) / 16777216\<rfloor> = 499999999"
    by (rule floor_unique) simp_all
  ultimately show ?thesis
    by (simp add: amountLamports_def demo_env_def demo_state_def)
qed

lemma demo_one_percent: "one_percent = Fin (5764607523034235 / 2 ^ 59)"
proof -
  have "round64 (1 / 100) = Fin (of_int 5764607523034235 * pow2 (- 7 - 52))"
    by (rule round64_pos) (simp_all add: pow2_def)
  then show ?thesis
    by (simp add: one_percent_def pow2_def)
qed

lemma demo_fee_amount: "feeAmountLamports demo_env demo_state demo_targets = Inr 10000000"
proof -
  have "round64 ((1 / 2) * 2) = Fin (of_int 4503599627370496 * pow2 (0 - 52))"
    by (rule round64_pos) (simp_all add: pow2_def)
  then have total: "js_mul (Fin (1 / 2)) (Number_of_nat (length demo_targets)) = Fin 1"
    by (simp add: pow2_def Number_of_nat_def demo_targets_def)
  have "round64 (1 * (5764607523034235 / 2 ^ 59))
        = Fin (of_int 5764607523034235 * pow2 (- 7 - 52))"
    by (rule round64_pos) (simp_all add: pow2_def)
  then have pct: "js_mul (Fin 1) one_percent = Fin (5764607523034235 / 2 ^ 59)"
    by (simp add: pow2_def demo_one_percent)
  have "round64 ((5764607523034235 / 2 ^ 59) / (4835703278458517 / 2 ^ 82))
        = Fin (of_int 5368709120000000 * pow2 (23 - 52))"
    by (rule round64_pos) (simp_all add: pow2_def)
  then have "js_div (Fin (5764607523034235 / 2 ^ 59)) (Fin (4835703278458517 / 2 ^ 82))
             = Fin 10000000"
    by (simp add: pow2_def)
  then show ?thesis
    by (simp add: feeAmountLamports_def demo_env_def demo_state_def total pct)
qed

lemma demo_mask: "createSquaresMask demo_targets = 16777217"
  by (simp add: createSquaresMask_def mask_step_def demo_targets_def)

lemma demo_toString: "toString 10 = ''10''" "toString 8 = ''8''" "toString 2 = ''2''"
  by (simp_all add: toString.simps digit_def)

lemma demo_feeAndDeploy:
  "feeAndDeploy demo_env demo_state demo_targets alice = Inr [demo_fee, demo_deploy]"
proof -
  have "le_bytes 8 499999999 = [255, 100, 205, 29, 0, 0, 0, 0]"
    "le_bytes 4 16777217 = [1, 0, 0, 1]"
    by (simp_all add: le_bytes_def upt_rec)
  then have A: "feeAndDeploy demo_env demo_state demo_targets alice
      = Inr [SystemTransfer (publicKey alice) feeRecipient 10000000,
             TransactionInstruction (deployAccounts demo_env demo_state alice)
               (ORE_PROGRAM_ID demo_env) [6, 255, 100, 205, 29, 0, 0, 0, 0, 1, 0, 0, 1]]"
    by (subst feeAndDeploy_eq) (simp add: demo_amount demo_fee_amount demo_mask)
  have B: "[SystemTransfer (publicKey alice) feeRecipient 10000000,
            TransactionInstruction (deployAccounts demo_env demo_state alice)
              (ORE_PROGRAM_ID demo_env) [6, 255, 100, 205, 29, 0, 0, 0, 0, 1, 0, 0, 1]]
           = [demo_fee, demo_deploy]"
    by (simp add: demo_fee_def demo_deploy_def feeRecipient_def deployAccounts_def
        demo_env_def demo_state_def alice_def demo_toString Let_def)
  from A show ?thesis
    by (simp only: B)
qed

lemma demo_roundReady: "roundReady demo_env demo_state (demo_conn (Some [1]) miner_account reply)"
  by (simp add: roundReady_def demo_env_def demo_state_def demo_conn_def demo_toString)

lemma demo_fetchMinerState:
  "fetchMinerState demo_env (demo_conn round_account (Some [r, c]) reply) (publicKey alice)
     = Inr (unat r, unat c)"
  "fetchMinerState demo_env (demo_conn round_account None reply) (publicKey alice) = Inr (0, 0)"
  by (simp_all add: fetchMinerState_def demo_env_def demo_conn_def alice_def)

lemma demo_checkpointLogic:
  "checkpointLogic demo_env alice 10 8 7 = Inr ([demo_checkpoint], [])"
  by (simp add: checkpointLogic_def checkpointData demo_checkpoint_def demo_env_def alice_def
      demo_toString del: One_nat_def)

lemma demo_targets_nonempty: "demo_targets \<noteq> []"
  by (simp add: demo_targets_def)

lemma digit_inj: "a < 10 \<Longrightarrow> b < 10 \<Longrightarrow> digit a = digit b \<Longrightarrow> a = b"
proof -
  assume a: "a < 10" and b: "b < 10" and e: "digit a = digit b"
  have d: "distinct ''0123456789''"
    by simp
  have "a < length ''0123456789''" "b < length ''0123456789''"
    using a b by simp_all
  with d e show "a = b"
    unfolding digit_def by (simp only: nth_eq_iff_index_eq)
qed

lemma toString_nonempty: "toString n \<noteq> []"
  by (subst toString.simps) simp

lemma toString_inj: "toString a = toString b \<Longrightarrow> a = b"
proof (induction a arbitrary: b rule: toString.induct)
  case (1 n)
  show ?case
  proof (cases "n < 10")
    case True
    show ?thesis
    proof (cases "b < 10")
      case b: True
      from "1.prems" True b have "digit n = digit b"
        by (simp add: toString.simps [of n] toString.simps [of b])
      with True b show ?thesis
        by (rule digit_inj)
    next
      case b: False
      from "1.prems" True b have "[digit n] = toString (b div 10) @ [digit (b mod 10)]"
        by (simp add: toString.simps [of n] toString.simps [of b])
      then have "toString (b div 10) = []"
        by simp
      with toString_nonempty show ?thesis
        by blast
    qed
  next
    case False
    show ?thesis
    proof (cases "b < 10")
      case b: True
      from "1.prems" False b have "toString (n div 10) @ [digit (n mod 10)] = [digit b]"
        by (simp add: toString.simps [of n] toString.simps [of b])
      then have "toString (n div 10) = []"
        by simp
      with toString_nonempty show ?thesis
        by blast
    next
      case b: False
      from "1.prems" False b
      have "toString (n div 10) @ [digit (n mod 10)] = toString (b div 10) @ [digit (b mod 10)]"
        by (simp add: toString.simps [of n] toString.simps [of b])
      then have q: "toString (n div 10) = toString (b div 10)"
        and r: "digit (n mod 10) = digit (b mod 10)"
        by simp_all
      from q have "n div 10 = b div 10"
        using False by (intro "1.IH") simp_all
      moreover from r have "n mod 10 = b mod 10"
        by (intro digit_inj) simp_all
      ultimately show ?thesis
        by (metis div_mult_mod_eq)
    qed
  qed
qed

lemma demo_round_pda_inj: "inj (getRoundPda demo_env)"
  by (rule injI) (simp add: demo_env_def toString_inj)

lemma demo_round_pda: "getRoundPda demo_env (currentRoundId demo_state) = ''round-10''"
  "getRoundPda demo_env 8 = ''round-8''"
  by (simp_all add: demo_env_def demo_state_def demo_toString)

lemma demo_miner_account:
  "getAccountInfo (demo_conn round_account miner_account reply) (getMinerPda demo_env (publicKey alice))
     = Inr miner_account"
  by (simp add: demo_conn_def demo_env_def alice_def)

lemma demo_parseMiner:
  "parseMiner demo_env [r, c] = Inr \<lparr>round_id = unat r, checkpoint_id = unat c\<rparr>"
  by (simp add: demo_env_def)

lemma demo_submitted_eligible:
  "submitted (sendDeployTx demo_env demo_state demo_targets
               (demo_conn (Some [1]) (Some [8, 7]) reply) (Some alice))
     = Some (computeBudget @ [demo_checkpoint] @ [demo_fee, demo_deploy])"
proof -
  have "currentRoundId demo_state = 10"
    by (simp add: demo_state_def)
  then show ?thesis
    by (subst sendDeployTx_submitted)
      (simp add: demo_targets_nonempty demo_roundReady demo_fetchMinerState demo_feeAndDeploy
        demo_checkpointLogic)
qed

lemma demo_submitted_clean:
  "submitted (sendDeployTx demo_env demo_state demo_targets
               (demo_conn (Some [1]) None reply) (Some alice))
     = Some (computeBudget @ [demo_fee, demo_deploy])"
  "submitted (sendDeployTx demo_env demo_state demo_targets
               (demo_conn (Some [1]) (Some [9, 9]) reply) (Some alice))
     = Some (computeBudget @ [demo_fee, demo_deploy])"
  by (subst sendDeployTx_submitted,
      simp add: demo_targets_nonempty demo_roundReady demo_fetchMinerState demo_feeAndDeploy
        checkpointLogic_clean)+

lemma demo_recoverLogs: "recoverLogs conn duplicate_failure = (None, [])"
  by (simp add: recoverLogs_def duplicate_failure_def)

lemma duplicate_failure_marker:
  "includes_str (case logs duplicate_failure of Some ls \<Rightarrow> join_lines ls
                 | None \<Rightarrow> message duplicate_failure) ''custom program error: 0x1''"
  by (simp add: duplicate_failure_def)

section \<open>The checkpoint decision\<close>

text \<open>
  C1. For a miner record with \<open>checkpoint_id \<noteq> round_id\<close> and \<open>round_id\<close> below the
  current round, the cycle submits, whenever it gets as far as building the fee and deploy
  instructions, a transaction in which a checkpoint instruction stands right after the two
  compute-budget hints and before the deploy instruction, which is last. The data of the
  checkpoint instruction is the single byte 2, and its fourth account is the round address
  derived from the record's stale \<open>round_id\<close>; where the derivation is injective this is
  not the address of the current round.
\<close>

theorem dirty_eligible_checkpoint:
  assumes acct: "getAccountInfo conn (getMinerPda env (publicKey signer)) = Inr (Some data)"
    and rec: "parseMiner env data = Inr m"
    and dirty: "checkpoint_id m \<noteq> round_id m"
    and stale: "round_id m < currentRoundId st"
  shows "(\<forall>rest. targets \<noteq> [] \<and> roundReady env st conn
                 \<and> feeAndDeploy env st targets signer = Inr rest \<longrightarrow>
            (\<exists>keys. submitted (sendDeployTx env st targets conn (Some signer))
                      = Some (computeBudget @ [TransactionInstruction keys (ORE_PROGRAM_ID env) [2]] @ rest)))
       \<and> (\<forall>tx. submitted (sendDeployTx env st targets conn (Some signer)) = Some tx \<longrightarrow>
            (\<exists>keys rest.
                tx = computeBudget @ [TransactionInstruction keys (ORE_PROGRAM_ID env) [2]] @ rest
              \<and> length keys = 6
              \<and> keys ! 3 = \<lparr>pubkey = getRoundPda env (round_id m), isSigner = False, isWritable = True\<rparr>
              \<and> (inj (getRoundPda env) \<longrightarrow>
                    pubkey (keys ! 3) \<noteq> getRoundPda env (currentRoundId st))
              \<and> rest \<noteq> [] \<and> is_deploy (last rest)
              \<and> (\<forall>i\<in>set rest. \<not> is_checkpoint i)))"
proof -
  have ms: "fetchMinerState env conn (publicKey signer) = Inr (round_id m, checkpoint_id m)"
    using acct rec by (rule fetchMinerState_record)
  from dirty stale obtain keys where
    cl: "checkpointLogic env signer (currentRoundId st) (round_id m) (checkpoint_id m)
         = Inr ([TransactionInstruction keys (ORE_PROGRAM_ID env) [2]], [])"
    and len: "length keys = 6"
    and k3: "keys ! 3 = \<lparr>pubkey = getRoundPda env (round_id m), isSigner = False, isWritable = True\<rparr>"
    using checkpointLogic_eligible [of "round_id m" "checkpoint_id m" "currentRoundId st" env signer]
    by auto
  have ne: "inj (getRoundPda env) \<longrightarrow> pubkey (keys ! 3) \<noteq> getRoundPda env (currentRoundId st)"
    using stale by (auto simp: k3 dest: injD)
  show ?thesis
  proof (intro conjI allI impI)
    fix rest
    assume "targets \<noteq> [] \<and> roundReady env st conn \<and> feeAndDeploy env st targets signer = Inr rest"
    then have "submitted (sendDeployTx env st targets conn (Some signer))
               = Some (computeBudget @ [TransactionInstruction keys (ORE_PROGRAM_ID env) [2]] @ rest)"
      by (subst sendDeployTx_submitted) (simp add: ms cl)
    then show "\<exists>keys. submitted (sendDeployTx env st targets conn (Some signer))
                 = Some (computeBudget @ [TransactionInstruction keys (ORE_PROGRAM_ID env) [2]] @ rest)"
      by blast
  next
    fix tx
    assume "submitted (sendDeployTx env st targets conn (Some signer)) = Some tx"
    then obtain rest where fd: "feeAndDeploy env st targets signer = Inr rest"
      and tx: "tx = computeBudget @ [TransactionInstruction keys (ORE_PROGRAM_ID env) [2]] @ rest"
      unfolding sendDeployTx_submitted by (auto simp: ms cl)
    from feeAndDeploy_shape [OF fd] tx len k3 ne
    show "\<exists>keys rest.
            tx = computeBudget @ [TransactionInstruction keys (ORE_PROGRAM_ID env) [2]] @ rest
          \<and> length keys = 6
          \<and> keys ! 3 = \<lparr>pubkey = getRoundPda env (round_id m), isSigner = False, isWritable = True\<rparr>
          \<and> (inj (getRoundPda env) \<longrightarrow>
                pubkey (keys ! 3) \<noteq> getRoundPda env (currentRoundId st))
          \<and> rest \<noteq> [] \<and> is_deploy (last rest)
          \<and> (\<forall>i\<in>set rest. \<not> is_checkpoint i)"
      by blast
  qed
qed

theorem dirty_eligible_checkpoint_witness:
  "submitted (sendDeployTx demo_env demo_state demo_targets
               (demo_conn (Some [1]) (Some [8, 7]) (Inr ''5VERv8NMvzbJMEkV'')) (Some alice))
     = Some (computeBudget @ [demo_checkpoint] @ [demo_fee, demo_deploy])
   \<and> (\<exists>keys rest.
         computeBudget @ [demo_checkpoint] @ [demo_fee, demo_deploy]
           = computeBudget @ [TransactionInstruction keys ''ore-program'' [2]] @ rest
       \<and> length keys = 6
       \<and> keys ! 3 = \<lparr>pubkey = ''round-8'', isSigner = False, isWritable = True\<rparr>
       \<and> pubkey (keys ! 3) \<noteq> getRoundPda demo_env (currentRoundId demo_state)
       \<and> rest \<noteq> [] \<and> is_deploy (last rest))
   \<and> (\<exists>keys. submitted (sendDeployTx demo_env demo_state demo_targets
                        (demo_conn (Some [1]) (Some [8, 7]) (Inr ''5VERv8NMvzbJMEkV'')) (Some alice))
                = Some (computeBudget @ [TransactionInstruction keys ''ore-program'' [2]]
                        @ [demo_fee, demo_deploy]))"
proof -
  let ?conn = "demo_conn (Some [1]) (Some [8, 7]) (Inr ''5VERv8NMvzbJMEkV'')"
  let ?m = "\<lparr>round_id = 8, checkpoint_id = 7\<rparr>"
  have h1: "getAccountInfo ?conn (getMinerPda demo_env (publicKey alice)) = Inr (Some [8, 7])"
    by (rule demo_miner_account)
  have h2: "parseMiner demo_env [8, 7] = Inr ?m"
    by (simp add: demo_parseMiner)
  have h3: "checkpoint_id ?m \<noteq> round_id ?m"
    by simp
  have h4: "round_id ?m < currentRoundId demo_state"
    by (simp add: demo_state_def)
  have s: "submitted (sendDeployTx demo_env demo_state demo_targets ?conn (Some alice))
           = Some (computeBudget @ [demo_checkpoint] @ [demo_fee, demo_deploy])"
    by (rule demo_submitted_eligible)
  note T = dirty_eligible_checkpoint [OF h1 h2 h3 h4, of demo_targets]
  from T s demo_round_pda_inj have "\<exists>keys rest.
         computeBudget @ [demo_checkpoint] @ [demo_fee, demo_deploy]
           = computeBudget @ [TransactionInstruction keys (ORE_PROGRAM_ID demo_env) [2]] @ rest
       \<and> length keys = 6
       \<and> keys ! 3 = \<lparr>pubkey = getRoundPda demo_env (round_id ?m), isSigner = False,
                       isWritable = True\<rparr>
       \<and> pubkey (keys ! 3) \<noteq> getRoundPda demo_env (currentRoundId demo_state)
       \<and> rest \<noteq> [] \<and> is_deploy (last rest)"
    by blast
  moreover from T demo_targets_nonempty demo_roundReady demo_feeAndDeploy
  have "\<exists>keys. submitted (sendDeployTx demo_env demo_state demo_targets ?conn (Some alice))
                = Some (computeBudget @ [TransactionInstruction keys (ORE_PROGRAM_ID demo_env) [2]]
                        @ [demo_fee, demo_deploy])"
    by blast
  moreover have "ORE_PROGRAM_ID demo_env = ''ore-program''"
    by (simp add: demo_env_def)
  moreover have "getRoundPda demo_env (round_id ?m) = ''round-8''"
    by (simp add: demo_round_pda)
  ultimately show ?thesis
    using s by simp
qed

text \<open>
  C6. For a miner record with \<open>checkpoint_id \<noteq> round_id\<close> and \<open>round_id\<close> not below the
  current round, a cycle that has a signer, targets and a ready round account logs the
  warning first, submits the two hints followed by what the fee and deploy step builds
  (nothing is submitted only when that step throws), and no submitted transaction holds a
  checkpoint instruction; its last instruction is the deploy instruction.
\<close>

theorem dirty_ineligible_proceeds:
  assumes ne: "targets \<noteq> []"
    and ready: "roundReady env st conn"
    and acct: "getAccountInfo conn (getMinerPda env (publicKey signer)) = Inr (Some data)"
    and rec: "parseMiner env data = Inr m"
    and dirty: "checkpoint_id m \<noteq> round_id m"
    and current: "currentRoundId st \<le> round_id m"
  shows "(\<exists>more. logged (sendDeployTx env st targets conn (Some signer))
                   = (''warning: state dirty but round '' @ toString (round_id m)
                      @ '' is current. skipping checkpoint.'') # more)
       \<and> submitted (sendDeployTx env st targets conn (Some signer))
           = (case feeAndDeploy env st targets signer of
                Inl e \<Rightarrow> None
              | Inr rest \<Rightarrow> Some (computeBudget @ rest))
       \<and> (\<forall>tx. submitted (sendDeployTx env st targets conn (Some signer)) = Some tx \<longrightarrow>
             (\<forall>i\<in>set tx. \<not> is_checkpoint i) \<and> is_deploy (last tx))"
proof -
  let ?w = "''warning: state dirty but round '' @ toString (round_id m)
            @ '' is current. skipping checkpoint.''"
  let ?r = "sendDeployTx env st targets conn (Some signer)"
  have ms: "fetchMinerState env conn (publicKey signer) = Inr (round_id m, checkpoint_id m)"
    using acct rec by (rule fetchMinerState_record)
  have cl: "checkpointLogic env signer (currentRoundId st) (round_id m) (checkpoint_id m)
            = Inr ([], [?w])"
    using dirty current
    by (intro checkpointLogic_ineligible) auto
  note reached = tryDeploy_reached [OF ready ms cl, of targets]
  note via = sendDeployTx_via_try [OF ne, of env st conn signer]
  have lg: "\<exists>more. logged ?r = ?w # more"
    using reached(1) via(2) by (metis append_Cons append_Nil)
  have sb: "submitted ?r = (case feeAndDeploy env st targets signer of
                Inl e \<Rightarrow> None
              | Inr rest \<Rightarrow> Some (computeBudget @ rest))"
    using reached(2) via(1) by (simp split: sum.splits)
  have nc: "(\<forall>i\<in>set tx. \<not> is_checkpoint i) \<and> is_deploy (last tx)"
    if "submitted ?r = Some tx" for tx
  proof -
    from that obtain rest where fd: "feeAndDeploy env st targets signer = Inr rest"
      and tx: "tx = computeBudget @ rest"
      by (auto simp: sb split: sum.splits)
    from feeAndDeploy_shape [OF fd] computeBudget_no_checkpoint tx show ?thesis
      by auto
  qed
  from lg sb nc show ?thesis
    by blast
qed

theorem dirty_ineligible_proceeds_witness:
  "(\<exists>more. logged (sendDeployTx demo_env demo_state demo_targets
                     (demo_conn (Some [1]) (Some [10, 9]) (Inr ''5VERv8NMvzbJMEkV'')) (Some alice))
             = ''warning: state dirty but round 10 is current. skipping checkpoint.'' # more)
   \<and> submitted (sendDeployTx demo_env demo_state demo_targets
                  (demo_conn (Some [1]) (Some [10, 9]) (Inr ''5VERv8NMvzbJMEkV'')) (Some alice))
       = Some (computeBudget @ [demo_fee, demo_deploy])
   \<and> \<not> (\<exists>i\<in>set (computeBudget @ [demo_fee, demo_deploy]). is_checkpoint i)
   \<and> is_deploy (last (computeBudget @ [demo_fee, demo_deploy]))"
proof -
  let ?conn = "demo_conn (Some [1]) (Some [10, 9]) (Inr ''5VERv8NMvzbJMEkV'')"
  let ?m = "\<lparr>round_id = 10, checkpoint_id = 9\<rparr>"
  let ?r = "sendDeployTx demo_env demo_state demo_targets ?conn (Some alice)"
  have h1: "getAccountInfo ?conn (getMinerPda demo_env (publicKey alice)) = Inr (Some [10, 9])"
    by (rule demo_miner_account)
  have h2: "parseMiner demo_env [10, 9] = Inr ?m"
    by (simp add: demo_parseMiner)
  have h3: "checkpoint_id ?m \<noteq> round_id ?m"
    by simp
  have h4: "currentRoundId demo_state \<le> round_id ?m"
    by (simp add: demo_state_def)
  note T = dirty_ineligible_proceeds [OF demo_targets_nonempty demo_roundReady h1 h2 h3 h4]
  from T have lg: "\<exists>more. logged ?r
      = (''warning: state dirty but round '' @ toString (round_id ?m)
         @ '' is current. skipping checkpoint.'') # more"
    by blast
  from T have "submitted ?r = (case feeAndDeploy demo_env demo_state demo_targets alice of
                                 Inl e \<Rightarrow> None | Inr rest \<Rightarrow> Some (computeBudget @ rest))"
    by blast
  then have sb: "submitted ?r = Some (computeBudget @ [demo_fee, demo_deploy])"
    by (simp add: demo_feeAndDeploy)
  with T have nc: "(\<forall>i\<in>set (computeBudget @ [demo_fee, demo_deploy]). \<not> is_checkpoint i)
      \<and> is_deploy (last (computeBudget @ [demo_fee, demo_deploy]))"
    by blast
  from lg have "\<exists>more. logged ?r
      = ''warning: state dirty but round 10 is current. skipping checkpoint.'' # more"
    by (simp add: demo_toString)
  with sb nc show ?thesis
    by blast
qed

text \<open>
  C7. When the miner account does not exist, or its record has
  \<open>checkpoint_id = round_id\<close>, a transaction submitted by the cycle holds no checkpoint
  instruction, whatever the current round is: it is the two hints followed by the fee and
  deploy instructions.
\<close>

theorem clean_no_checkpoint:
  assumes clean: "getAccountInfo conn (getMinerPda env (publicKey signer)) = Inr None
      \<or> (\<exists>data m. getAccountInfo conn (getMinerPda env (publicKey signer)) = Inr (Some data)
                  \<and> parseMiner env data = Inr m \<and> checkpoint_id m = round_id m)"
    and sub: "submitted (sendDeployTx env st targets conn (Some signer)) = Some tx"
  shows "(\<forall>i\<in>set tx. \<not> is_checkpoint i)
       \<and> (\<exists>rest. feeAndDeploy env st targets signer = Inr rest \<and> tx = computeBudget @ rest)"
proof -
  from clean obtain r where ms: "fetchMinerState env conn (publicKey signer) = Inr (r, r)"
    by (auto simp: fetchMinerState_record fetchMinerState_absent)
  from sub obtain rest where fd: "feeAndDeploy env st targets signer = Inr rest"
    and tx: "tx = computeBudget @ rest"
    unfolding sendDeployTx_submitted by (auto simp: ms checkpointLogic_clean)
  from feeAndDeploy_shape [OF fd] computeBudget_no_checkpoint tx fd show ?thesis
    by auto
qed

theorem clean_no_checkpoint_witness:
  "\<not> (\<exists>i\<in>set (computeBudget @ [demo_fee, demo_deploy]). is_checkpoint i)
   \<and> submitted (sendDeployTx demo_env demo_state demo_targets
                  (demo_conn (Some [1]) None (Inr ''5VERv8NMvzbJMEkV'')) (Some alice))
       = Some (computeBudget @ [demo_fee, demo_deploy])
   \<and> submitted (sendDeployTx demo_env demo_state demo_targets
                  (demo_conn (Some [1]) (Some [9, 9]) (Inr ''5VERv8NMvzbJMEkV'')) (Some alice))
       = Some (computeBudget @ [demo_fee, demo_deploy])"
proof -
  let ?none = "demo_conn (Some [1]) None (Inr ''5VERv8NMvzbJMEkV'')"
  let ?same = "demo_conn (Some [1]) (Some [9, 9]) (Inr ''5VERv8NMvzbJMEkV'')"
  have a: "getAccountInfo ?none (getMinerPda demo_env (publicKey alice)) = Inr None"
    by (rule demo_miner_account)
  have b: "\<exists>data m. getAccountInfo ?same (getMinerPda demo_env (publicKey alice)) = Inr (Some data)
                  \<and> parseMiner demo_env data = Inr m \<and> checkpoint_id m = round_id m"
    by (simp add: demo_miner_account demo_parseMiner)
  have s1: "submitted (sendDeployTx demo_env demo_state demo_targets ?none (Some alice))
            = Some (computeBudget @ [demo_fee, demo_deploy])"
    and s2: "submitted (sendDeployTx demo_env demo_state demo_targets ?same (Some alice))
            = Some (computeBudget @ [demo_fee, demo_deploy])"
    by (rule demo_submitted_clean)+
  from clean_no_checkpoint [OF disjI1 [OF a] s1] clean_no_checkpoint [OF disjI2 [OF b] s2] s1 s2
  show ?thesis
    by blast
qed

section \<open>Amounts, order and fee recipient\<close>

text \<open>
  C3. The arithmetic is that of the source: binary64 numbers, each product and quotient
  rounded. For every stake \<open>s\<close>, conversion constant \<open>unit\<close> and selection of \<open>n\<close> targets,
  the stake in lamports is computed exactly when \<open>s / unit\<close> is finite and is its floor, and
  the fee in lamports is computed exactly when \<open>s * n * 0.01 / unit\<close> is finite and is its
  floor. In every transaction that the cycle submits, the floor of the stake is not
  negative, so it is the truncation toward zero, the deploy instruction carries it in its
  bytes 1 to 8, and a fee transfer is in the transaction if and only if the fee is
  strictly positive; it then moves exactly the fee to the fee recipient. The roundings
  show in the values: half a SOL over the binary64 number nearest to \<open>10^-9\<close> is
  499999999 lamports.
\<close>

theorem stake_and_fee_amounts:
  "(amountLamports env st = Inr a \<longleftrightarrow>
      (\<exists>q. js_div (customDeployAmount st) (SOL_PER_LAMPORT env) = Fin q \<and> a = \<lfloor>q\<rfloor>))
   \<and> (feeAmountLamports env st targets = Inr b \<longleftrightarrow>
      (\<exists>f. js_div (js_mul (js_mul (customDeployAmount st) (Number_of_nat (length targets)))
                          one_percent)
                  (SOL_PER_LAMPORT env) = Fin f \<and> b = \<lfloor>f\<rfloor>))
   \<and> (\<forall>tx. submitted (sendDeployTx env st targets conn signer_opt) = Some tx \<longrightarrow>
        (\<exists>q f ks p d.
            js_div (customDeployAmount st) (SOL_PER_LAMPORT env) = Fin q
          \<and> js_div (js_mul (js_mul (customDeployAmount st) (Number_of_nat (length targets)))
                            one_percent)
                    (SOL_PER_LAMPORT env) = Fin f
          \<and> truncate q = \<lfloor>q\<rfloor>
          \<and> last tx = TransactionInstruction ks p d
          \<and> le_value (take 8 (drop 1 d)) = \<lfloor>q\<rfloor>
          \<and> ((\<exists>i\<in>set tx. is_fee_transfer i) \<longleftrightarrow> 0 < \<lfloor>f\<rfloor>)
          \<and> (0 < \<lfloor>f\<rfloor> \<longrightarrow>
                (\<exists>sender. SystemTransfer sender feeRecipient \<lfloor>f\<rfloor> \<in> set tx))))"
proof (intro conjI allI impI)
  show "amountLamports env st = Inr a \<longleftrightarrow>
      (\<exists>q. js_div (customDeployAmount st) (SOL_PER_LAMPORT env) = Fin q \<and> a = \<lfloor>q\<rfloor>)"
    by (rule amountLamports_iff)
  show "feeAmountLamports env st targets = Inr b \<longleftrightarrow>
      (\<exists>f. js_div (js_mul (js_mul (customDeployAmount st) (Number_of_nat (length targets)))
                          one_percent)
                  (SOL_PER_LAMPORT env) = Fin f \<and> b = \<lfloor>f\<rfloor>)"
    by (rule feeAmountLamports_iff)
next
  fix tx
  assume "submitted (sendDeployTx env st targets conn signer_opt) = Some tx"
  then obtain signer r c cp w rest where
    cl: "checkpointLogic env signer (currentRoundId st) r c = Inr (cp, w)"
    and fd: "feeAndDeploy env st targets signer = Inr rest"
    and tx: "tx = computeBudget @ cp @ rest"
    unfolding sendDeployTx_submitted by blast
  from fd obtain amount fee where
    am: "amountLamports env st = Inr amount"
    and fe: "feeAmountLamports env st targets = Inr fee"
    and range: "0 \<le> amount" "amount < 2 ^ 64"
    and rest: "rest = (if 0 < fee then [SystemTransfer (publicKey signer) feeRecipient fee] else [])
                 @ [TransactionInstruction (deployAccounts env st signer) (ORE_PROGRAM_ID env)
                      (6 # le_bytes 8 amount @ le_bytes 4 (uint (createSquaresMask targets)))]"
    unfolding feeAndDeploy_eq by blast
  from am obtain q where q: "js_div (customDeployAmount st) (SOL_PER_LAMPORT env) = Fin q"
    and aq: "amount = \<lfloor>q\<rfloor>"
    unfolding amountLamports_iff by blast
  from fe obtain f where
    f: "js_div (js_mul (js_mul (customDeployAmount st) (Number_of_nat (length targets)))
                       one_percent)
               (SOL_PER_LAMPORT env) = Fin f"
    and ff: "fee = \<lfloor>f\<rfloor>"
    unfolding feeAmountLamports_iff by blast
  let ?d = "6 # le_bytes 8 amount @ le_bytes 4 (uint (createSquaresMask targets))"
  have tr: "truncate q = \<lfloor>q\<rfloor>"
    using range(1) by (simp add: truncate_floor aq)
  have la: "last tx = TransactionInstruction (deployAccounts env st signer) (ORE_PROGRAM_ID env) ?d"
    by (simp add: tx rest)
  have lv: "le_value (take 8 (drop 1 ?d)) = \<lfloor>q\<rfloor>"
    using range by (simp add: le_value_le_bytes aq [symmetric])
  have cpn: "\<forall>i\<in>set cp. \<not> is_fee_transfer i"
    using cl by (auto simp: checkpointLogic_def is_fee_transfer_def Let_def
        split: if_splits sum.splits)
  have ft: "(\<exists>i\<in>set tx. is_fee_transfer i) \<longleftrightarrow> 0 < \<lfloor>f\<rfloor>"
    using cpn by (auto simp: tx rest ff is_fee_transfer_def computeBudget_def)
  have fm: "0 < \<lfloor>f\<rfloor> \<longrightarrow> (\<exists>sender. SystemTransfer sender feeRecipient \<lfloor>f\<rfloor> \<in> set tx)"
    by (auto simp: tx rest ff)
  from q f tr la lv ft fm
  show "\<exists>q f ks p d.
            js_div (customDeployAmount st) (SOL_PER_LAMPORT env) = Fin q
          \<and> js_div (js_mul (js_mul (customDeployAmount st) (Number_of_nat (length targets)))
                            one_percent)
                    (SOL_PER_LAMPORT env) = Fin f
          \<and> truncate q = \<lfloor>q\<rfloor>
          \<and> last tx = TransactionInstruction ks p d
          \<and> le_value (take 8 (drop 1 d)) = \<lfloor>q\<rfloor>
          \<and> ((\<exists>i\<in>set tx. is_fee_transfer i) \<longleftrightarrow> 0 < \<lfloor>f\<rfloor>)
          \<and> (0 < \<lfloor>f\<rfloor> \<longrightarrow>
                (\<exists>sender. SystemTransfer sender feeRecipient \<lfloor>f\<rfloor> \<in> set tx))"
    by blast
qed

theorem stake_and_fee_amounts_witness:
  "(\<exists>q. js_div (customDeployAmount demo_state) (SOL_PER_LAMPORT demo_env) = Fin q
        \<and> 499999999 = \<lfloor>q\<rfloor>)
   \<and> (\<exists>f. js_div (js_mul (js_mul (customDeployAmount demo_state)
                                (Number_of_nat (length demo_targets))) one_percent)
                (SOL_PER_LAMPORT demo_env) = Fin f
        \<and> 10000000 = \<lfloor>f\<rfloor>)
   \<and> (\<exists>i\<in>set (computeBudget @ [demo_checkpoint] @ [demo_fee, demo_deploy]). is_fee_transfer i)
   \<and> (\<exists>sender. SystemTransfer sender feeRecipient 10000000
          \<in> set (computeBudget @ [demo_checkpoint] @ [demo_fee, demo_deploy]))
   \<and> le_value (take 8 (drop 1 [6, 255, 100, 205, 29, 0, 0, 0, 0, 1, 0, 0, 1])) = 499999999"
proof -
  let ?conn = "demo_conn (Some [1]) (Some [8, 7]) (Inr ''5VERv8NMvzbJMEkV'')"
  let ?tx = "computeBudget @ [demo_checkpoint] @ [demo_fee, demo_deploy]"
  note T = stake_and_fee_amounts [where env = demo_env and st = demo_state
      and targets = demo_targets and conn = ?conn and signer_opt = "Some alice"
      and a = 499999999 and b = 10000000]
  from T demo_amount have q: "\<exists>q. js_div (customDeployAmount demo_state) (SOL_PER_LAMPORT demo_env)
      = Fin q \<and> 499999999 = \<lfloor>q\<rfloor>"
    by blast
  from T demo_fee_amount have f: "\<exists>f. js_div (js_mul (js_mul (customDeployAmount demo_state)
                                (Number_of_nat (length demo_targets))) one_percent)
                (SOL_PER_LAMPORT demo_env) = Fin f \<and> 10000000 = \<lfloor>f\<rfloor>"
    by blast
  have s: "submitted (sendDeployTx demo_env demo_state demo_targets ?conn (Some alice)) = Some ?tx"
    by (rule demo_submitted_eligible)
  with T obtain q f ks p d where
    q': "js_div (customDeployAmount demo_state) (SOL_PER_LAMPORT demo_env) = Fin q"
    and f': "js_div (js_mul (js_mul (customDeployAmount demo_state)
                                (Number_of_nat (length demo_targets))) one_percent)
                (SOL_PER_LAMPORT demo_env) = Fin f"
    and la: "last ?tx = TransactionInstruction ks p d"
    and lv: "le_value (take 8 (drop 1 d)) = \<lfloor>q\<rfloor>"
    and ft: "(\<exists>i\<in>set ?tx. is_fee_transfer i) \<longleftrightarrow> 0 < \<lfloor>f\<rfloor>"
    and fm: "0 < \<lfloor>f\<rfloor> \<longrightarrow> (\<exists>sender. SystemTransfer sender feeRecipient \<lfloor>f\<rfloor> \<in> set ?tx)"
    by blast
  from q q' have fq: "\<lfloor>q\<rfloor> = 499999999" by auto
  from f f' have ff: "\<lfloor>f\<rfloor> = 10000000" by auto
  from la have d: "d = [6, 255, 100, 205, 29, 0, 0, 0, 0, 1, 0, 0, 1]"
    by (simp add: demo_deploy_def)
  from ft ff have "\<exists>i\<in>set ?tx. is_fee_transfer i"
    by simp
  moreover from fm ff have "\<exists>sender. SystemTransfer sender feeRecipient 10000000 \<in> set ?tx"
    by simp
  moreover from lv fq d
  have "le_value (take 8 (drop 1 [6, 255, 100, 205, 29, 0, 0, 0, 0, 1, 0, 0, 1])) = 499999999"
    by simp
  ultimately show ?thesis
    using q f by blast
qed

text \<open>
  C5. Every transaction that the deploy cycle submits is, in this order: the compute-unit
  limit hint, the compute-unit price hint, a checkpoint instruction exactly when the miner
  state is dirty and older than the current round, the fee transfer exactly when the fee
  is strictly positive, and the deploy instruction last.
\<close>

theorem instruction_order:
  assumes "submitted (sendDeployTx env st targets conn signer_opt) = Some tx"
  shows "\<exists>signer r c amount fee cp dep.
           signer_opt = Some signer
         \<and> fetchMinerState env conn (publicKey signer) = Inr (r, c)
         \<and> amountLamports env st = Inr amount
         \<and> feeAmountLamports env st targets = Inr fee
         \<and> tx = [SetComputeUnitLimit 750000, SetComputeUnitPrice 100000]
                @ (if r \<noteq> c \<and> r < currentRoundId st then [cp] else [])
                @ (if 0 < fee then [SystemTransfer (publicKey signer) feeRecipient fee] else [])
                @ [dep]
         \<and> is_checkpoint cp
         \<and> is_deploy dep
         \<and> dep = TransactionInstruction (deployAccounts env st signer) (ORE_PROGRAM_ID env)
                   (6 # le_bytes 8 amount @ le_bytes 4 (uint (createSquaresMask targets)))"
proof -
  from submitted_transaction_parts [OF assms] obtain signer r c cp w amount fee where
    s: "signer_opt = Some signer"
    and ms: "fetchMinerState env conn (publicKey signer) = Inr (r, c)"
    and cl: "checkpointLogic env signer (currentRoundId st) r c = Inr (cp, w)"
    and am: "amountLamports env st = Inr amount"
    and fe: "feeAmountLamports env st targets = Inr fee"
    and tx: "tx = computeBudget @ cp
                @ (if 0 < fee then [SystemTransfer (publicKey signer) feeRecipient fee] else [])
                @ [TransactionInstruction (deployAccounts env st signer) (ORE_PROGRAM_ID env)
                     (6 # le_bytes 8 amount @ le_bytes 4 (uint (createSquaresMask targets)))]"
    by blast
  define dep where "dep = TransactionInstruction (deployAccounts env st signer) (ORE_PROGRAM_ID env)
                      (6 # le_bytes 8 amount @ le_bytes 4 (uint (createSquaresMask targets)))"
  have d: "is_deploy dep"
    by (simp add: dep_def is_deploy_payload)
  from checkpointLogic_shape [OF cl] obtain i where i: "is_checkpoint i"
    and cp: "cp = (if r \<noteq> c \<and> r < currentRoundId st then [i] else [])"
    by blast
  have "tx = [SetComputeUnitLimit 750000, SetComputeUnitPrice 100000]
                @ (if r \<noteq> c \<and> r < currentRoundId st then [i] else [])
                @ (if 0 < fee then [SystemTransfer (publicKey signer) feeRecipient fee] else [])
                @ [dep]"
    by (simp add: tx cp dep_def computeBudget_def)
  with s ms am fe i d dep_def show ?thesis
    by blast
qed

theorem instruction_order_witness:
  "\<exists>signer r c amount fee cp dep.
           Some alice = Some signer
         \<and> fetchMinerState demo_env (demo_conn (Some [1]) (Some [8, 7]) (Inr ''5VERv8NMvzbJMEkV''))
              (publicKey signer) = Inr (r, c)
         \<and> amountLamports demo_env demo_state = Inr amount
         \<and> feeAmountLamports demo_env demo_state demo_targets = Inr fee
         \<and> computeBudget @ [demo_checkpoint] @ [demo_fee, demo_deploy]
             = [SetComputeUnitLimit 750000, SetComputeUnitPrice 100000]
                @ (if r \<noteq> c \<and> r < currentRoundId demo_state then [cp] else [])
                @ (if 0 < fee then [SystemTransfer (publicKey signer) feeRecipient fee] else [])
                @ [dep]
         \<and> is_checkpoint cp
         \<and> is_deploy dep
         \<and> dep = TransactionInstruction (deployAccounts demo_env demo_state signer)
                   (ORE_PROGRAM_ID demo_env)
                   (6 # le_bytes 8 amount @ le_bytes 4 (uint (createSquaresMask demo_targets)))"
  by (rule instruction_order [OF demo_submitted_eligible])

text \<open>
  C10. A system transfer in a transaction submitted by the deploy cycle is from the
  signer's public key to the one address written in the source, and moves the computed fee,
  which is strictly positive.
\<close>

theorem fee_recipient_fixed:
  assumes sub: "submitted (sendDeployTx env st targets conn signer_opt) = Some tx"
    and mem: "SystemTransfer sender recipient lamports \<in> set tx"
  shows "signer_opt = Some \<lparr>publicKey = sender\<rparr>
       \<and> recipient = ''oREVE663st4oVqRp31TdEKdjqUYmZkJ3Vofi1zEAPro''
       \<and> feeAmountLamports env st targets = Inr lamports
       \<and> 0 < lamports"
proof -
  from submitted_transaction_parts [OF sub] obtain signer r c cp w amount fee where
    s: "signer_opt = Some signer"
    and cl: "checkpointLogic env signer (currentRoundId st) r c = Inr (cp, w)"
    and fe: "feeAmountLamports env st targets = Inr fee"
    and tx: "tx = computeBudget @ cp
                @ (if 0 < fee then [SystemTransfer (publicKey signer) feeRecipient fee] else [])
                @ [TransactionInstruction (deployAccounts env st signer) (ORE_PROGRAM_ID env)
                     (6 # le_bytes 8 amount @ le_bytes 4 (uint (createSquaresMask targets)))]"
    by blast
  from checkpointLogic_shape [OF cl] have "\<forall>i\<in>set cp. is_checkpoint i"
    by (auto split: if_splits)
  then have "SystemTransfer sender recipient lamports \<notin> set cp"
    by (auto simp: is_checkpoint_def)
  moreover have "SystemTransfer sender recipient lamports \<notin> set computeBudget"
    by (simp add: computeBudget_def)
  ultimately have "0 < fee \<and> sender = publicKey signer \<and> recipient = feeRecipient
      \<and> lamports = fee"
    using mem by (auto simp: tx split: if_splits)
  with s fe show ?thesis
    by (cases signer) (simp add: feeRecipient_def)
qed

theorem fee_recipient_fixed_witness:
  "SystemTransfer ''alice'' ''oREVE663st4oVqRp31TdEKdjqUYmZkJ3Vofi1zEAPro'' 10000000
     \<in> set (computeBudget @ [demo_checkpoint] @ [demo_fee, demo_deploy])
   \<and> Some alice = Some \<lparr>publicKey = ''alice''\<rparr>
   \<and> feeAmountLamports demo_env demo_state demo_targets = Inr 10000000"
proof -
  have m: "SystemTransfer ''alice'' ''oREVE663st4oVqRp31TdEKdjqUYmZkJ3Vofi1zEAPro'' 10000000
     \<in> set (computeBudget @ [demo_checkpoint] @ [demo_fee, demo_deploy])"
    by (simp add: demo_fee_def)
  from fee_recipient_fixed [OF demo_submitted_eligible m] m show ?thesis
    by blast
qed

section \<open>Deferred cycles and failed submissions\<close>

text \<open>
  C9. The cycle submits nothing and does not call the fatal-error handler when the signer
  is missing, when the selection is empty, when the account of the current round does not
  exist, or when that account does not decode as a round with its total deployed. Each of
  the four cases logs one line and nothing else; in the last two (with a signer and a
  non-empty selection) the line says that the deploy is skipped until the next tick, and
  the \<open>try\<close> block ends without a thrown failure.
\<close>

theorem deferred_cycles:
  "((signer_opt = None \<or> targets = []
      \<or> getAccountInfo conn (getRoundPda env (currentRoundId st)) = Inr None
      \<or> (\<exists>data. getAccountInfo conn (getRoundPda env (currentRoundId st)) = Inr (Some data)
            \<and> (case parseRound env data of
                  Inl parseErr \<Rightarrow> True
                | Inr roundData \<Rightarrow> total_deployed roundData = None)))
     \<longrightarrow> submitted (sendDeployTx env st targets conn signer_opt) = None
       \<and> fatal (sendDeployTx env st targets conn signer_opt) = None)
   \<and> (signer_opt = None \<longrightarrow>
         sendDeployTx env st targets conn signer_opt
           = say [''deploy failed: signer keypair not loaded''])
   \<and> (signer_opt \<noteq> None \<and> targets = [] \<longrightarrow>
         sendDeployTx env st targets conn signer_opt
           = say [''deploy skipped: no targets provided''])
   \<and> (signer_opt = Some signer \<and> targets \<noteq> []
        \<and> getAccountInfo conn (getRoundPda env (currentRoundId st)) = Inr None \<longrightarrow>
         sendDeployTx env st targets conn signer_opt
           = say [''deploy skipped: round '' @ toString (currentRoundId st)
                  @ '' account not found. Waiting for next tick.'']
       \<and> snd (tryDeploy env st conn targets signer) = None)
   \<and> (signer_opt = Some signer \<and> targets \<noteq> []
        \<and> getAccountInfo conn (getRoundPda env (currentRoundId st)) = Inr (Some data)
        \<and> (case parseRound env data of
              Inl parseErr \<Rightarrow> True
            | Inr roundData \<Rightarrow> total_deployed roundData = None) \<longrightarrow>
         sendDeployTx env st targets conn signer_opt
           = say [''deploy skipped: round '' @ toString (currentRoundId st)
                  @ '' account found but not initialized. Waiting for next tick.'']
       \<and> snd (tryDeploy env st conn targets signer) = None)"
proof -
  let ?r = "sendDeployTx env st targets conn signer_opt"
  let ?pda = "getRoundPda env (currentRoundId st)"
  have nosigner: "?r = say [''deploy failed: signer keypair not loaded'']"
    if "signer_opt = None"
    using that by (simp add: sendDeployTx_def)
  have notargets: "?r = say [''deploy skipped: no targets provided'']"
    if "signer_opt \<noteq> None" "targets = []"
    using that by (auto simp: sendDeployTx_def)
  have absent: "tryDeploy env st conn targets s
      = (say [''deploy skipped: round '' @ toString (currentRoundId st)
              @ '' account not found. Waiting for next tick.''], None)"
    if "getAccountInfo conn ?pda = Inr None" for s
    using that by (simp add: tryDeploy_def)
  have undecoded: "tryDeploy env st conn targets s
      = (say [''deploy skipped: round '' @ toString (currentRoundId st)
              @ '' account found but not initialized. Waiting for next tick.''], None)"
    if "getAccountInfo conn ?pda = Inr (Some d)"
      "case parseRound env d of Inl parseErr \<Rightarrow> True
       | Inr roundData \<Rightarrow> total_deployed roundData = None" for s d
    using that by (simp add: tryDeploy_def)
  have quiet: "submitted ?r = None \<and> fatal ?r = None"
    if "signer_opt = None \<or> targets = []
      \<or> getAccountInfo conn ?pda = Inr None
      \<or> (\<exists>data. getAccountInfo conn ?pda = Inr (Some data)
            \<and> (case parseRound env data of
                  Inl parseErr \<Rightarrow> True
                | Inr roundData \<Rightarrow> total_deployed roundData = None))"
  proof (cases signer_opt)
    case None
    then have "?r = say [''deploy failed: signer keypair not loaded'']"
      by (rule nosigner)
    then show ?thesis by simp
  next
    case (Some s)
    show ?thesis
    proof (cases "targets = []")
      case True
      with Some have "?r = say [''deploy skipped: no targets provided'']"
        by (intro notargets) auto
      then show ?thesis by simp
    next
      case False
      with that Some consider "getAccountInfo conn ?pda = Inr None"
        | d where "getAccountInfo conn ?pda = Inr (Some d)"
            "case parseRound env d of Inl parseErr \<Rightarrow> True
             | Inr roundData \<Rightarrow> total_deployed roundData = None"
        by auto
      then show ?thesis
      proof cases
        case 1
        with Some False show ?thesis
          by (simp add: sendDeployTx_def absent)
      next
        case 2
        with Some False show ?thesis
          by (simp add: sendDeployTx_def undecoded)
      qed
    qed
  qed
  show ?thesis
  proof (intro conjI impI)
    assume "signer_opt = None \<or> targets = []
      \<or> getAccountInfo conn ?pda = Inr None
      \<or> (\<exists>data. getAccountInfo conn ?pda = Inr (Some data)
            \<and> (case parseRound env data of
                  Inl parseErr \<Rightarrow> True
                | Inr roundData \<Rightarrow> total_deployed roundData = None))"
    then have "submitted ?r = None \<and> fatal ?r = None"
      by (rule quiet)
    then show "submitted ?r = None" "fatal ?r = None"
      by simp_all
  next
    assume "signer_opt = None"
    then show "?r = say [''deploy failed: signer keypair not loaded'']"
      by (rule nosigner)
  next
    assume "signer_opt \<noteq> None \<and> targets = []"
    then show "?r = say [''deploy skipped: no targets provided'']"
      using notargets by blast
  next
    assume a: "signer_opt = Some signer \<and> targets \<noteq> [] \<and> getAccountInfo conn ?pda = Inr None"
    then show "?r = say [''deploy skipped: round '' @ toString (currentRoundId st)
                  @ '' account not found. Waiting for next tick.'']"
      by (simp add: sendDeployTx_def absent)
    from a show "snd (tryDeploy env st conn targets signer) = None"
      by (simp add: absent)
  next
    assume a: "signer_opt = Some signer \<and> targets \<noteq> []
        \<and> getAccountInfo conn ?pda = Inr (Some data)
        \<and> (case parseRound env data of
              Inl parseErr \<Rightarrow> True
            | Inr roundData \<Rightarrow> total_deployed roundData = None)"
    then show "?r = say [''deploy skipped: round '' @ toString (currentRoundId st)
                  @ '' account found but not initialized. Waiting for next tick.'']"
      by (simp add: sendDeployTx_def undecoded)
    from a show "snd (tryDeploy env st conn targets signer) = None"
      by (simp add: undecoded)
  qed
qed

theorem deferred_cycles_witness:
  "sendDeployTx demo_env demo_state demo_targets
     (demo_conn (Some [1]) None (Inr ''5VERv8NMvzbJMEkV'')) None
     = say [''deploy failed: signer keypair not loaded'']
   \<and> sendDeployTx demo_env demo_state []
       (demo_conn (Some [1]) None (Inr ''5VERv8NMvzbJMEkV'')) (Some alice)
     = say [''deploy skipped: no targets provided'']
   \<and> sendDeployTx demo_env demo_state demo_targets
       (demo_conn None None (Inr ''5VERv8NMvzbJMEkV'')) (Some alice)
     = say [''deploy skipped: round 10 account not found. Waiting for next tick.'']
   \<and> sendDeployTx demo_env demo_state demo_targets
       (demo_conn (Some [0]) None (Inr ''5VERv8NMvzbJMEkV'')) (Some alice)
     = say [''deploy skipped: round 10 account found but not initialized. Waiting for next tick.'']
   \<and> submitted (sendDeployTx demo_env demo_state demo_targets
                  (demo_conn (Some [0]) None (Inr ''5VERv8NMvzbJMEkV'')) (Some alice)) = None
   \<and> fatal (sendDeployTx demo_env demo_state demo_targets
              (demo_conn (Some [0]) None (Inr ''5VERv8NMvzbJMEkV'')) (Some alice)) = None"
proof -
  let ?ok = "demo_conn (Some [1]) None (Inr ''5VERv8NMvzbJMEkV'')"
  let ?absent = "demo_conn None None (Inr ''5VERv8NMvzbJMEkV'')"
  let ?raw = "demo_conn (Some [0]) None (Inr ''5VERv8NMvzbJMEkV'')"
  have a: "getAccountInfo ?absent (getRoundPda demo_env (currentRoundId demo_state)) = Inr None"
    by (simp add: demo_round_pda demo_conn_def)
  have b: "getAccountInfo ?raw (getRoundPda demo_env (currentRoundId demo_state)) = Inr (Some [0])"
    by (simp add: demo_round_pda demo_conn_def)
  have c: "case parseRound demo_env [0] of Inl parseErr \<Rightarrow> True
           | Inr roundData \<Rightarrow> total_deployed roundData = None"
    by (simp add: demo_env_def)
  have t: "toString (currentRoundId demo_state) = ''10''"
    by (simp add: demo_state_def demo_toString)
  from deferred_cycles [where signer_opt = None and env = demo_env and st = demo_state
      and targets = demo_targets and conn = ?ok]
  have 1: "sendDeployTx demo_env demo_state demo_targets ?ok None
           = say [''deploy failed: signer keypair not loaded'']"
    by blast
  from deferred_cycles [where signer_opt = "Some alice" and env = demo_env and st = demo_state
      and targets = "[]" and conn = ?ok]
  have 2: "sendDeployTx demo_env demo_state [] ?ok (Some alice)
           = say [''deploy skipped: no targets provided'']"
    by blast
  from deferred_cycles [where signer_opt = "Some alice" and signer = alice and env = demo_env
      and st = demo_state and targets = demo_targets and conn = ?absent] a demo_targets_nonempty
  have "sendDeployTx demo_env demo_state demo_targets ?absent (Some alice)
           = say [''deploy skipped: round '' @ toString (currentRoundId demo_state)
                  @ '' account not found. Waiting for next tick.'']"
    by blast
  then have 3: "sendDeployTx demo_env demo_state demo_targets ?absent (Some alice)
           = say [''deploy skipped: round 10 account not found. Waiting for next tick.'']"
    by (simp add: t)
  note T = deferred_cycles [where signer_opt = "Some alice" and signer = alice and env = demo_env
      and st = demo_state and targets = demo_targets and conn = ?raw and data = "[0]"]
  from T b c demo_targets_nonempty
  have "sendDeployTx demo_env demo_state demo_targets ?raw (Some alice)
           = say [''deploy skipped: round '' @ toString (currentRoundId demo_state)
                  @ '' account found but not initialized. Waiting for next tick.'']"
    by blast
  then have 4: "sendDeployTx demo_env demo_state demo_targets ?raw (Some alice)
           = say [''deploy skipped: round 10 account found but not initialized. Waiting for next tick.'']"
    by (simp add: t)
  from T b c
  have 5: "submitted (sendDeployTx demo_env demo_state demo_targets ?raw (Some alice)) = None
         \<and> fatal (sendDeployTx demo_env demo_state demo_targets ?raw (Some alice)) = None"
    by blast
  from 1 2 3 4 5 show ?thesis
    by blast
qed

text \<open>
  C2, as the code has it. When the submission of the checkpoint transaction fails and the
  content of the failure (its log lines joined by newlines, or its message when it has no
  log list) contains the marker \<open>custom program error: 0x1\<close>, the call logs the
  informational line, returns true and does not call the fatal-error handler; every other
  failure of that submission is passed to the fatal-error handler, and the call returns
  false. When the submission of the deploy transaction fails, the failure is passed to the
  fatal-error handler whatever its content is.
\<close>

theorem submission_failure_classification:
  "(submitted (snd (sendCheckpointTx env rnd conn (Some signer))) = Some tx
      \<and> sendAndConfirmTransaction conn tx [signer] = Inl e \<longrightarrow>
      (if includes_str (case logs e of Some ls \<Rightarrow> join_lines ls | None \<Rightarrow> message e)
            ''custom program error: 0x1''
       then fst (sendCheckpointTx env rnd conn (Some signer))
          \<and> fatal (snd (sendCheckpointTx env rnd conn (Some signer))) = None
          \<and> logged (snd (sendCheckpointTx env rnd conn (Some signer)))
              = [''checkpoint for round '' @ toString rnd @ '' already done or not needed'']
       else \<not> fst (sendCheckpointTx env rnd conn (Some signer))
          \<and> fatal (snd (sendCheckpointTx env rnd conn (Some signer))) = Some (e, None)))
   \<and> (submitted (sendDeployTx env' st targets conn' (Some signer')) = Some tx'
      \<and> sendAndConfirmTransaction conn' tx' [signer'] = Inl e' \<longrightarrow>
      (\<exists>ls. fatal (sendDeployTx env' st targets conn' (Some signer')) = Some (e', ls)))"
proof (intro conjI impI)
  assume "submitted (snd (sendCheckpointTx env rnd conn (Some signer))) = Some tx
      \<and> sendAndConfirmTransaction conn tx [signer] = Inl e"
  then have "sendCheckpointTx env rnd conn (Some signer) =
     (if includes_str (case logs e of Some ls \<Rightarrow> join_lines ls | None \<Rightarrow> message e)
           ''custom program error: 0x1''
      then (True, \<lparr>logged = [''checkpoint for round '' @ toString rnd
                              @ '' already done or not needed''],
                   submitted = Some tx, fatal = None\<rparr>)
      else (False, \<lparr>logged = [], submitted = Some tx, fatal = Some (e, None)\<rparr>))"
    using sendCheckpointTx_failure [of env rnd conn signer tx e] by blast
  then show "if includes_str (case logs e of Some ls \<Rightarrow> join_lines ls | None \<Rightarrow> message e)
            ''custom program error: 0x1''
       then fst (sendCheckpointTx env rnd conn (Some signer))
          \<and> fatal (snd (sendCheckpointTx env rnd conn (Some signer))) = None
          \<and> logged (snd (sendCheckpointTx env rnd conn (Some signer)))
              = [''checkpoint for round '' @ toString rnd @ '' already done or not needed'']
       else \<not> fst (sendCheckpointTx env rnd conn (Some signer))
          \<and> fatal (snd (sendCheckpointTx env rnd conn (Some signer))) = Some (e, None)"
    by (simp split: if_splits)
next
  assume "submitted (sendDeployTx env' st targets conn' (Some signer')) = Some tx'
      \<and> sendAndConfirmTransaction conn' tx' [signer'] = Inl e'"
  then have "submitted (sendDeployTx env' st targets conn' (Some signer')) = Some tx'"
    and "sendAndConfirmTransaction conn' tx' [signer'] = Inl e'"
    by simp_all
  then have "fatal (sendDeployTx env' st targets conn' (Some signer'))
             = Some (e', fst (recoverLogs conn' e'))"
    by (rule sendDeployTx_failure)
  then show "\<exists>ls. fatal (sendDeployTx env' st targets conn' (Some signer')) = Some (e', ls)"
    by blast
qed

theorem submission_failure_classification_witness:
  "fst (sendCheckpointTx demo_env 8
          (demo_conn (Some [1]) (Some [8, 7]) (Inl duplicate_failure)) (Some alice))
   \<and> fatal (snd (sendCheckpointTx demo_env 8
          (demo_conn (Some [1]) (Some [8, 7]) (Inl duplicate_failure)) (Some alice))) = None
   \<and> logged (snd (sendCheckpointTx demo_env 8
          (demo_conn (Some [1]) (Some [8, 7]) (Inl duplicate_failure)) (Some alice)))
       = [''checkpoint for round 8 already done or not needed'']
   \<and> \<not> fst (sendCheckpointTx demo_env 8
          (demo_conn (Some [1]) (Some [8, 7]) (Inl expired_failure)) (Some alice))
   \<and> fatal (snd (sendCheckpointTx demo_env 8
          (demo_conn (Some [1]) (Some [8, 7]) (Inl expired_failure)) (Some alice)))
       = Some (expired_failure, None)
   \<and> (\<exists>ls. fatal (sendDeployTx demo_env demo_state demo_targets
                    (demo_conn (Some [1]) (Some [8, 7]) (Inl expired_failure)) (Some alice))
             = Some (expired_failure, ls))"
proof -
  let ?dup = "demo_conn (Some [1]) (Some [8, 7]) (Inl duplicate_failure)"
  let ?exp = "demo_conn (Some [1]) (Some [8, 7]) (Inl expired_failure)"
  let ?tx = "computeBudget @ [demo_checkpoint] @ [demo_fee, demo_deploy]"
  obtain ctx where c1: "submitted (snd (sendCheckpointTx demo_env 8 ?dup (Some alice))) = Some ctx"
    by (simp add: sendCheckpointTx_submitted)
  obtain ctx' where c2: "submitted (snd (sendCheckpointTx demo_env 8 ?exp (Some alice))) = Some ctx'"
    by (simp add: sendCheckpointTx_submitted)
  have f1: "sendAndConfirmTransaction ?dup ctx [alice] = Inl duplicate_failure"
    and f2: "sendAndConfirmTransaction ?exp ctx' [alice] = Inl expired_failure"
    and f3: "sendAndConfirmTransaction ?exp ?tx [alice] = Inl expired_failure"
    by (simp_all add: demo_conn_def)
  have s: "submitted (sendDeployTx demo_env demo_state demo_targets ?exp (Some alice)) = Some ?tx"
    by (rule demo_submitted_eligible)
  have m1: "includes_str (case logs duplicate_failure of Some ls \<Rightarrow> join_lines ls
                 | None \<Rightarrow> message duplicate_failure) ''custom program error: 0x1''"
    by (rule duplicate_failure_marker)
  have m2: "\<not> includes_str (case logs expired_failure of Some ls \<Rightarrow> join_lines ls
                 | None \<Rightarrow> message expired_failure) ''custom program error: 0x1''"
    by (simp add: expired_failure_def)
  note T1 = submission_failure_classification [where env = demo_env and rnd = 8 and conn = ?dup
      and signer = alice and tx = ctx and e = duplicate_failure]
  note T2 = submission_failure_classification [where env = demo_env and rnd = 8 and conn = ?exp
      and signer = alice and tx = ctx' and e = expired_failure and env' = demo_env
      and st = demo_state and targets = demo_targets and conn' = ?exp and signer' = alice
      and tx' = ?tx and e' = expired_failure]
  from T1 c1 f1 m1
  have a: "fst (sendCheckpointTx demo_env 8 ?dup (Some alice))
      \<and> fatal (snd (sendCheckpointTx demo_env 8 ?dup (Some alice))) = None
      \<and> logged (snd (sendCheckpointTx demo_env 8 ?dup (Some alice)))
          = [''checkpoint for round '' @ toString 8 @ '' already done or not needed'']"
    by (simp only: simp_thms if_True)
  from T2 c2 f2 m2
  have b: "\<not> fst (sendCheckpointTx demo_env 8 ?exp (Some alice))
      \<and> fatal (snd (sendCheckpointTx demo_env 8 ?exp (Some alice))) = Some (expired_failure, None)"
    by (simp only: simp_thms if_False)
  from T2 s f3
  have c: "\<exists>ls. fatal (sendDeployTx demo_env demo_state demo_targets ?exp (Some alice))
             = Some (expired_failure, ls)"
    by blast
  from a have a': "logged (snd (sendCheckpointTx demo_env 8 ?dup (Some alice)))
          = [''checkpoint for round 8 already done or not needed'']"
    by (simp add: demo_toString)
  from a a' b c show ?thesis
    by blast
qed

text \<open>
  The classification does not hold of every submission: a deploy transaction whose
  submission fails with the marker in its logs ends in the fatal-error handler.
\<close>

theorem duplicate_marker_fatal_in_deploy:
  "submitted (sendDeployTx demo_env demo_state demo_targets
               (demo_conn (Some [1]) (Some [9, 9]) (Inl duplicate_failure)) (Some alice))
     = Some (computeBudget @ [demo_fee, demo_deploy])
   \<and> sendAndConfirmTransaction (demo_conn (Some [1]) (Some [9, 9]) (Inl duplicate_failure))
        (computeBudget @ [demo_fee, demo_deploy]) [alice] = Inl duplicate_failure
   \<and> includes_str (case logs duplicate_failure of Some ls \<Rightarrow> join_lines ls
                   | None \<Rightarrow> message duplicate_failure) ''custom program error: 0x1''
   \<and> fatal (sendDeployTx demo_env demo_state demo_targets
              (demo_conn (Some [1]) (Some [9, 9]) (Inl duplicate_failure)) (Some alice))
       = Some (duplicate_failure, None)"
proof -
  let ?conn = "demo_conn (Some [1]) (Some [9, 9]) (Inl duplicate_failure)"
  have s: "submitted (sendDeployTx demo_env demo_state demo_targets ?conn (Some alice))
           = Some (computeBudget @ [demo_fee, demo_deploy])"
    by (rule demo_submitted_clean)
  have f: "sendAndConfirmTransaction ?conn (computeBudget @ [demo_fee, demo_deploy]) [alice]
           = Inl duplicate_failure"
    by (simp add: demo_conn_def)
  have "fatal (sendDeployTx demo_env demo_state demo_targets ?conn (Some alice))
        = Some (duplicate_failure, fst (recoverLogs ?conn duplicate_failure))"
    using s f by (rule sendDeployTx_failure)
  then have "fatal (sendDeployTx demo_env demo_state demo_targets ?conn (Some alice))
        = Some (duplicate_failure, None)"
    by (simp add: demo_recoverLogs)
  with s f duplicate_failure_marker show ?thesis
    by blast
qed

end
